theory Spec2Isabelle
  imports Complex_Main "HOL-Library.Multiset"
begin

section \<open>Exceptions (exceptions.py)\<close>

text \<open>
  The exception classes of \<^verbatim>\<open>exceptions.py\<close>, together with the built-in classes that
  the processors raise or that reach their handlers.  \<open>base_class\<close> is the class named in
  the parentheses of each \<^verbatim>\<open>class\<close> statement; for the built-in classes it is Python's own
  hierarchy (\<open>FileNotFoundError\<close> and \<open>PermissionError\<close> below \<open>OSError\<close>, \<open>KeyError\<close> and \<open>IndexError\<close> below
  \<open>LookupError\<close>, \<open>ZeroDivisionError\<close> and \<open>OverflowError\<close> below \<open>ArithmeticError\<close>).
\<close>

datatype exc_class =
    Exception
  | ArithmeticError | LookupError | OSError
  | ValueError | TypeError | KeyError | IndexError
  | ZeroDivisionError | OverflowError | FileNotFoundError | PermissionError
  | GISProcessingError
  | ProjectionError | DataFormatError | GeometryError | FileAccessError

fun base_class :: "exc_class \<Rightarrow> exc_class option" where
  "base_class Exception = None"
| "base_class ArithmeticError = Some Exception"
| "base_class LookupError = Some Exception"
| "base_class OSError = Some Exception"
| "base_class ValueError = Some Exception"
| "base_class TypeError = Some Exception"
| "base_class KeyError = Some LookupError"
| "base_class IndexError = Some LookupError"
| "base_class ZeroDivisionError = Some ArithmeticError"
| "base_class OverflowError = Some ArithmeticError"
| "base_class FileNotFoundError = Some OSError"
| "base_class PermissionError = Some OSError"
| "base_class GISProcessingError = Some Exception"
| "base_class ProjectionError = Some GISProcessingError"
| "base_class DataFormatError = Some GISProcessingError"
| "base_class GeometryError = Some GISProcessingError"
| "base_class FileAccessError = Some GISProcessingError"

text \<open>Distance of a class from \<open>Exception\<close>; it decreases along \<open>base_class\<close>.\<close>

fun class_depth :: "exc_class \<Rightarrow> nat" where
  "class_depth Exception = 0"
| "class_depth ArithmeticError = 1"
| "class_depth LookupError = 1"
| "class_depth OSError = 1"
| "class_depth ValueError = 1"
| "class_depth TypeError = 1"
| "class_depth GISProcessingError = 1"
| "class_depth c = 2"

text \<open>Python's \<^verbatim>\<open>issubclass(c, d)\<close>: \<open>d\<close> is \<open>c\<close> or one of its ancestors.\<close>

function issubclass :: "exc_class \<Rightarrow> exc_class \<Rightarrow> bool" where
  "issubclass c d =
     (if c = d then True
      else (case base_class c of None \<Rightarrow> False | Some p \<Rightarrow> issubclass p d))"
  by pat_completeness auto
termination
proof (relation "measure (\<lambda>(c, d). class_depth c)")
  show "wf (measure (\<lambda>(c, d). class_depth c))"
    by simp
next
  fix c d p :: exc_class
  assume "base_class c = Some p"
  then have "class_depth p < class_depth c"
    by (cases c) auto
  then show "((p, d), (c, d)) \<in> measure (\<lambda>(c, d). class_depth c)"
    by simp
qed

declare issubclass.simps [simp del]

text \<open>
  An exception value: its class and its message (\<^verbatim>\<open>str(e)\<close>).  A clause
  \<^verbatim>\<open>except H\<close> handles a raised exception when the class of the exception is a subclass
  of \<open>H\<close>.
\<close>

type_synonym exn = "exc_class \<times> string"

definition catches :: "exc_class \<Rightarrow> exn \<Rightarrow> bool" where
  "catches handler e = issubclass (fst e) handler"

section \<open>Projection model (data\_models.py)\<close>

text \<open>Python's \<^verbatim>\<open>str\<close> of an integer, as the f-string of \<open>to_crs\<close> formats it.\<close>

definition digit_char :: "nat \<Rightarrow> char" where
  "digit_char d = ''0123456789'' ! d"

fun str_nat :: "nat \<Rightarrow> string" where
  "str_nat n =
     (if n < 10 then [digit_char n]
      else str_nat (n div 10) @ [digit_char (n mod 10)])"

declare str_nat.simps [simp del]

definition str_int :: "int \<Rightarrow> string" where
  "str_int i = (if i < 0 then CHR ''-'' # str_nat (nat (- i)) else str_nat (nat i))"

record ProjectionInfo =
  epsg_code :: "int option"
  proj4_string :: "string option"
  wkt_string :: "string option"
  authority :: "string option"

text \<open>Truth value of an \<^verbatim>\<open>Optional[int]\<close> and of an \<^verbatim>\<open>Optional[str]\<close> in an \<^verbatim>\<open>if\<close>.\<close>

definition truthy_int :: "int option \<Rightarrow> bool" where
  "truthy_int v = (case v of None \<Rightarrow> False | Some n \<Rightarrow> n \<noteq> 0)"

definition truthy_str :: "string option \<Rightarrow> bool" where
  "truthy_str v = (case v of None \<Rightarrow> False | Some s \<Rightarrow> s \<noteq> [])"

text \<open>\<open>ProjectionInfo.to_crs\<close>; the result \<open>None\<close> is Python's \<^verbatim>\<open>None\<close>.\<close>

definition to_crs :: "ProjectionInfo \<Rightarrow> string option" where
  "to_crs p =
     (if truthy_int (epsg_code p) then Some (''EPSG:'' @ str_int (the (epsg_code p)))
      else if truthy_str (proj4_string p) then proj4_string p
      else if truthy_str (wkt_string p) then wkt_string p
      else None)"

text \<open>
  The projection that carries an already resolved identifier as its raw string: the way
  a canonical form is handed back to \<open>to_crs\<close>.
\<close>

definition from_string :: "string \<Rightarrow> ProjectionInfo" where
  "from_string s =
     \<lparr>epsg_code = None, proj4_string = Some s, wkt_string = None, authority = None\<rparr>"

definition unset_projection :: ProjectionInfo where
  "unset_projection =
     \<lparr>epsg_code = None, proj4_string = None, wkt_string = None, authority = None\<rparr>"

section \<open>Floating-point numbers (Python floats, NumPy float32 and float64)\<close>

text \<open>
  A floating-point value: a finite number (the two zeros are not told apart), an
  infinity, or NaN.  A Python float and a float64 element are the finite values that
  \<open>round_double\<close> returns; a float32 element those that \<open>round_float32\<close> returns.
\<close>

datatype fpval = Fin rat | PInf | NInf | NaN

definition pow2 :: "int \<Rightarrow> rat" where
  "pow2 e = (if 0 \<le> e then 2 ^ nat e else 1 / 2 ^ nat (- e))"

text \<open>The number of binary digits of a positive integer, and the binary exponent
  \<open>\<lfloor>log\<^sub>2 x\<rfloor>\<close> of a positive rational.\<close>

function bitlen :: "int \<Rightarrow> int" where
  "bitlen n = (if n \<le> 0 then 0 else 1 + bitlen (n div 2))"
  by pat_completeness auto
termination
  by (relation "measure nat") auto

declare bitlen.simps [simp del]

definition ilog2 :: "rat \<Rightarrow> int" where
  "ilog2 x =
     (let (n, d) = quotient_of x;
          k = bitlen n - bitlen d
      in if pow2 k \<le> x then k else k - 1)"

definition round_half_even :: "rat \<Rightarrow> int" where
  "round_half_even x =
     (let fl = \<lfloor>x\<rfloor>; r = x - of_int fl
      in if r < 1 / 2 then fl
         else if 1 / 2 < r then fl + 1
         else if even fl then fl else fl + 1)"

text \<open>
  IEEE 754 rounding to nearest, ties to even, into the binary format with \<open>p\<close>
  significant bits, smallest normal exponent \<open>emin\<close> and overflow threshold
  \<open>2 ^ emax\<close>: the value is rounded to a multiple of the spacing of the format at its
  exponent (at \<open>emin\<close> for a subnormal); a result that reaches the threshold is an
  infinity.
\<close>

definition round_binary :: "nat \<Rightarrow> int \<Rightarrow> int \<Rightarrow> rat \<Rightarrow> fpval" where
  "round_binary p emin emax x =
     (if x = 0 then Fin 0
      else
        (let e = max (ilog2 \<bar>x\<bar>) emin;
             q = pow2 (e - (int p - 1));
             y = of_int (round_half_even (\<bar>x\<bar> / q)) * q
         in if pow2 emax \<le> y then (if 0 < x then PInf else NInf)
            else Fin (if 0 < x then y else - y)))"

definition round_double :: "rat \<Rightarrow> fpval" where
  "round_double = round_binary 53 (- 1022) 1024"

definition round_float32 :: "rat \<Rightarrow> fpval" where
  "round_float32 = round_binary 24 (- 126) 128"

text \<open>The conversion of a float to float32.\<close>

fun to_float32 :: "fpval \<Rightarrow> fpval" where
  "to_float32 (Fin x) = round_float32 x"
| "to_float32 v = v"

text \<open>The comparisons \<open>\<le>\<close> and \<open>\<noteq>\<close> of IEEE 754: with a NaN, \<open>\<le>\<close> is false and \<open>\<noteq>\<close> is true.\<close>

fun fp_le :: "fpval \<Rightarrow> fpval \<Rightarrow> bool" where
  "fp_le NaN v = False"
| "fp_le v NaN = False"
| "fp_le NInf v = True"
| "fp_le v PInf = True"
| "fp_le (Fin x) (Fin y) = (x \<le> y)"
| "fp_le v w = False"

definition fp_ne :: "fpval \<Rightarrow> fpval \<Rightarrow> bool" where
  "fp_ne v w = (v = NaN \<or> w = NaN \<or> v \<noteq> w)"

text \<open>
  The product and the sum of two doubles.  A product with a finite zero factor and a sum
  with a zero term are exact; every other finite result is rounded.
\<close>

fun d_mul :: "fpval \<Rightarrow> fpval \<Rightarrow> fpval" where
  "d_mul NaN v = NaN"
| "d_mul v NaN = NaN"
| "d_mul (Fin x) (Fin y) = (if x = 0 \<or> y = 0 then Fin 0 else round_double (x * y))"
| "d_mul (Fin x) PInf = (if x = 0 then NaN else if 0 < x then PInf else NInf)"
| "d_mul (Fin x) NInf = (if x = 0 then NaN else if 0 < x then NInf else PInf)"
| "d_mul PInf (Fin y) = (if y = 0 then NaN else if 0 < y then PInf else NInf)"
| "d_mul NInf (Fin y) = (if y = 0 then NaN else if 0 < y then NInf else PInf)"
| "d_mul PInf PInf = PInf"
| "d_mul NInf NInf = PInf"
| "d_mul PInf NInf = NInf"
| "d_mul NInf PInf = NInf"

fun d_add :: "fpval \<Rightarrow> fpval \<Rightarrow> fpval" where
  "d_add NaN v = NaN"
| "d_add v NaN = NaN"
| "d_add (Fin x) (Fin y) =
     (if y = 0 then Fin x else if x = 0 then Fin y else round_double (x + y))"
| "d_add PInf NInf = NaN"
| "d_add NInf PInf = NaN"
| "d_add PInf v = PInf"
| "d_add NInf v = NInf"
| "d_add v PInf = PInf"
| "d_add v NInf = NInf"

text \<open>
  Python's \<^verbatim>\<open>float(n)\<close> of an integer, \<^verbatim>\<open>int(x)\<close> of a float (truncation towards zero)
  and \<^verbatim>\<open>a / b\<close> of two integers (the quotient rounded once), with the exceptions they
  raise.
\<close>

definition py_float :: "int \<Rightarrow> exn + fpval" where
  "py_float n =
     (case round_double (of_int n) of
        Fin x \<Rightarrow> Inr (Fin x)
      | _ \<Rightarrow> Inl (OverflowError, ''int too large to convert to float''))"

definition trunc_zero :: "rat \<Rightarrow> int" where
  "trunc_zero x = (if 0 \<le> x then \<lfloor>x\<rfloor> else \<lceil>x\<rceil>)"

definition py_int :: "fpval \<Rightarrow> exn + int" where
  "py_int v =
     (case v of
        Fin x \<Rightarrow> Inr (trunc_zero x)
      | NaN \<Rightarrow> Inl (ValueError, ''cannot convert float NaN to integer'')
      | _ \<Rightarrow> Inl (OverflowError, ''cannot convert float infinity to integer''))"

definition py_truediv :: "int \<Rightarrow> int \<Rightarrow> exn + fpval" where
  "py_truediv a b =
     (if b = 0 then Inl (ZeroDivisionError, ''division by zero'')
      else (case round_double (of_int a / of_int b) of
              Fin x \<Rightarrow> Inr (Fin x)
            | _ \<Rightarrow> Inl (OverflowError, ''integer division result too large for a float'')))"

text \<open>
  Python's \<^verbatim>\<open>round(x)\<close> on a finite float, the function the specification names for
  the resampled dimensions: the nearest integer, a tie going to the even neighbour.  The
  source does not call it.
\<close>

definition py_round :: "rat \<Rightarrow> int" where
  "py_round x = round_half_even x"

section \<open>Rasters (rasterio datasets as the processors read them)\<close>

text \<open>
  The six coefficients of an affine pixel-to-world transform:
  \<open>x = a * col + b * row + c\<close> and \<open>y = d * col + e * row + f\<close>.  The coefficients of a
  dataset are finite doubles, held as the rationals they denote; the image of a point is
  the exact one.
\<close>

record affine =
  af_a :: rat
  af_b :: rat
  af_c :: rat
  af_d :: rat
  af_e :: rat
  af_f :: rat

definition affine_apply :: "affine \<Rightarrow> rat \<times> rat \<Rightarrow> rat \<times> rat" where
  "affine_apply t p =
     (af_a t * fst p + af_b t * snd p + af_c t, af_d t * fst p + af_e t * snd p + af_f t)"

text \<open>
  An open dataset: CRS (\<open>None\<close> when the file has none), transform, width, height, element
  type, nodata value and the bands, each band flattened row by row.  Width and height are
  Python integers.
\<close>

record 'a raster =
  r_crs :: "string option"
  r_transform :: affine
  r_width :: int
  r_height :: int
  r_dtype :: string
  r_nodata :: "'a option"
  r_bands :: "'a list list"

text \<open>The world coordinates of the four corners of the pixel grid: the extent covered.\<close>

definition grid_corners :: "affine \<Rightarrow> int \<Rightarrow> int \<Rightarrow> (rat \<times> rat) list" where
  "grid_corners t w h =
     [affine_apply t (0, 0), affine_apply t (of_int w, 0),
      affine_apply t (0, of_int h), affine_apply t (of_int w, of_int h)]"

definition extent :: "'a raster \<Rightarrow> (rat \<times> rat) list" where
  "extent r = grid_corners (r_transform r) (r_width r) (r_height r)"

text \<open>\<^verbatim>\<open>src.bounds\<close>: left, bottom, right, top of the corners.\<close>

definition raster_bounds :: "'a raster \<Rightarrow> rat \<times> rat \<times> rat \<times> rat" where
  "raster_bounds r =
     (let xs = map fst (extent r); ys = map snd (extent r)
      in (Min (set xs), Min (set ys), Max (set xs), Max (set ys)))"

text \<open>Every band of a dataset holds \<open>width * height\<close> pixels.\<close>

definition well_formed :: "'a raster \<Rightarrow> bool" where
  "well_formed r = list_all (\<lambda>b. int (length b) = r_width r * r_height r) (r_bands r)"

section \<open>NumPy on the elements of a band\<close>

text \<open>
  What NumPy does with one element of a band of a given element type and a Python
  scalar \<open>s\<close>: the comparisons \<^verbatim>\<open>data >= s\<close>, \<^verbatim>\<open>data <= s\<close> and \<^verbatim>\<open>data != s\<close>, for which NumPy
  first converts \<open>s\<close> as the element type asks (\<^verbatim>\<open>data == s\<close> is the negation of
  \<^verbatim>\<open>data != s\<close>), and the conversion of a value, \<^verbatim>\<open>None\<close> included, that is assigned into the
  band.  They belong to the library and are parameters of the processors below; elements
  and scalars are values of one type \<open>'a\<close>.
\<close>

record 'a dtype_ops =
  np_ge :: "'a \<Rightarrow> 'a \<Rightarrow> bool"
  np_le :: "'a \<Rightarrow> 'a \<Rightarrow> bool"
  np_ne :: "'a \<Rightarrow> 'a \<Rightarrow> bool"
  np_cast :: "'a option \<Rightarrow> exn + 'a"

text \<open>
  Three element types.  An integer band of at most 32 bits, with scalars of integral
  value inside its range, all written as integers: NumPy compares in float64, where both
  sides are exact, stores such a scalar unchanged and cannot store \<^verbatim>\<open>None\<close> (the message of
  the \<open>TypeError\<close> is shortened).  A float64 band: the comparisons of IEEE 754, \<^verbatim>\<open>None\<close>
  stored as NaN.  A float32 band: the same after the scalar is converted to float32.
\<close>

definition int_ops :: "int dtype_ops" where
  "int_ops =
     \<lparr>np_ge = (\<lambda>x s. s \<le> x), np_le = (\<lambda>x s. x \<le> s), np_ne = (\<lambda>x s. x \<noteq> s),
      np_cast = (\<lambda>v. case v of
                   None \<Rightarrow> Inl (TypeError, ''int() argument must be a real number, not NoneType'')
                 | Some s \<Rightarrow> Inr s)\<rparr>"

definition float64_ops :: "fpval dtype_ops" where
  "float64_ops =
     \<lparr>np_ge = (\<lambda>x s. fp_le s x), np_le = (\<lambda>x s. fp_le x s), np_ne = (\<lambda>x s. fp_ne x s),
      np_cast = (\<lambda>v. case v of None \<Rightarrow> Inr NaN | Some s \<Rightarrow> Inr s)\<rparr>"

definition float32_ops :: "fpval dtype_ops" where
  "float32_ops =
     \<lparr>np_ge = (\<lambda>x s. fp_le (to_float32 s) x), np_le = (\<lambda>x s. fp_le x (to_float32 s)),
      np_ne = (\<lambda>x s. fp_ne x (to_float32 s)),
      np_cast = (\<lambda>v. case v of None \<Rightarrow> Inr NaN | Some s \<Rightarrow> Inr (to_float32 s))\<rparr>"

section \<open>RasterProcessor.clip\_raster\_with\_raster\<close>

text \<open>
  \<^verbatim>\<open>mask_data != mask_src.nodata\<close>, element by element, as NumPy compares on the element
  type of the mask; against \<^verbatim>\<open>None\<close> every element differs.
\<close>

definition boolean_mask :: "'a dtype_ops \<Rightarrow> 'a list \<Rightarrow> 'a option \<Rightarrow> bool list" where
  "boolean_mask mask_ops mask_data nd =
     (case nd of
        None \<Rightarrow> map (\<lambda>_. True) mask_data
      | Some m \<Rightarrow> map (\<lambda>v. np_ne mask_ops v m) mask_data)"

text \<open>\<^verbatim>\<open>band[~boolean_mask] = v\<close> on arrays of one shape.\<close>

definition assign_where_not :: "bool list \<Rightarrow> 'a \<Rightarrow> 'a list \<Rightarrow> 'a list" where
  "assign_where_not bm v band = map (\<lambda>(keep, x). if keep then x else v) (zip bm band)"

text \<open>
  The body of the \<^verbatim>\<open>try\<close> block, for a source and a mask with the element types
  \<open>src_ops\<close> and \<open>mask_ops\<close>.  The exceptions of the library are branches of their own:
  reading band 1 of a mask without bands and indexing a band with a mask of another shape
  (their messages shortened), and whatever the conversion of \<^verbatim>\<open>src.nodata\<close> to the element
  type of the source raises.  Opening the files and writing the output are taken to
  succeed; the result is the dataset written.
\<close>

definition clip_body ::
  "'a dtype_ops \<Rightarrow> 'b dtype_ops \<Rightarrow> 'a raster \<Rightarrow> 'b raster \<Rightarrow> exn + 'a raster" where
  "clip_body src_ops mask_ops src mask_src =
     (if r_crs src \<noteq> r_crs mask_src
      then Inl (ProjectionError, ''Both Raster must have the same CRS for clipping'')
      else (case r_bands mask_src of
          [] \<Rightarrow> Inl (IndexError, ''band index 1 out of range (not in ())'')
        | mask_data # _ \<Rightarrow>
            if r_bands src = [] then Inr src
            else if (r_height src, r_width src) \<noteq> (r_height mask_src, r_width mask_src)
            then Inl (IndexError, ''boolean index did not match indexed array'')
            else (case np_cast src_ops (r_nodata src) of
                Inl e \<Rightarrow> Inl e
              | Inr v \<Rightarrow>
                  Inr (src\<lparr>r_bands :=
                    map (assign_where_not
                           (boolean_mask mask_ops mask_data (r_nodata mask_src)) v)
                      (r_bands src)\<rparr>))))"

text \<open>
  \<open>clip_raster_with_raster\<close>: every exception of the body, the \<open>ProjectionError\<close>
  included, reaches \<^verbatim>\<open>except Exception as e\<close> and is replaced by a
  \<open>GISProcessingError\<close> whose message quotes it.
\<close>

definition clip_raster_with_raster ::
  "'a dtype_ops \<Rightarrow> 'b dtype_ops \<Rightarrow> 'a raster \<Rightarrow> 'b raster \<Rightarrow> exn + 'a raster" where
  "clip_raster_with_raster src_ops mask_ops src mask_src =
     (case clip_body src_ops mask_ops src mask_src of
        Inl e \<Rightarrow> Inl (GISProcessingError, ''Clipping raster user raster failed: '' @ snd e)
      | Inr out \<Rightarrow> Inr out)"

text \<open>The class of the exception a call raised, if it raised one.\<close>

definition raised_class :: "exn + 'b \<Rightarrow> exc_class option" where
  "raised_class r = (case r of Inl e \<Rightarrow> Some (fst e) | Inr _ \<Rightarrow> None)"

section \<open>RasterProcessor.resample\_raster\<close>

text \<open>
  A transform whose coefficients are doubles, the product of two transforms and
  \<^verbatim>\<open>Affine.scale(sx, sy)\<close> as the affine package computes them with Python floats, and the
  transform of a dataset as such a transform.
\<close>

record daffine =
  da_a :: fpval
  da_b :: fpval
  da_c :: fpval
  da_d :: fpval
  da_e :: fpval
  da_f :: fpval

definition daffine_scale :: "fpval \<Rightarrow> fpval \<Rightarrow> daffine" where
  "daffine_scale sx sy =
     \<lparr>da_a = sx, da_b = Fin 0, da_c = Fin 0, da_d = Fin 0, da_e = sy, da_f = Fin 0\<rparr>"

definition daffine_mul :: "daffine \<Rightarrow> daffine \<Rightarrow> daffine" where
  "daffine_mul s t =
     \<lparr>da_a = d_add (d_mul (da_a s) (da_a t)) (d_mul (da_b s) (da_d t)),
      da_b = d_add (d_mul (da_a s) (da_b t)) (d_mul (da_b s) (da_e t)),
      da_c = d_add (d_add (d_mul (da_a s) (da_c t)) (d_mul (da_b s) (da_f t))) (da_c s),
      da_d = d_add (d_mul (da_d s) (da_a t)) (d_mul (da_e s) (da_d t)),
      da_e = d_add (d_mul (da_d s) (da_b t)) (d_mul (da_e s) (da_e t)),
      da_f = d_add (d_add (d_mul (da_d s) (da_c t)) (d_mul (da_e s) (da_f t))) (da_f s)\<rparr>"

definition daffine_of :: "affine \<Rightarrow> daffine" where
  "daffine_of t =
     \<lparr>da_a = Fin (af_a t), da_b = Fin (af_b t), da_c = Fin (af_c t),
      da_d = Fin (af_d t), da_e = Fin (af_e t), da_f = Fin (af_f t)\<rparr>"

text \<open>The transform with rational coefficients, when all six doubles are finite.\<close>

definition finite_affine :: "daffine \<Rightarrow> affine option" where
  "finite_affine t =
     (case (da_a t, da_b t, da_c t, da_d t, da_e t, da_f t) of
        (Fin a, Fin b, Fin c, Fin d, Fin e, Fin f) \<Rightarrow>
          Some \<lparr>af_a = a, af_b = b, af_c = c, af_d = d, af_e = e, af_f = f\<rparr>
      | _ \<Rightarrow> None)"

text \<open>The dataset that \<open>resample_raster\<close> writes: the metadata of the source with the new
  width, height and transform, and the resampled bands.\<close>

record 'a resampled =
  rs_crs :: "string option"
  rs_transform :: daffine
  rs_width :: int
  rs_height :: int
  rs_dtype :: string
  rs_nodata :: "'a option"
  rs_bands :: "'a list list"

text \<open>
  The body of the \<^verbatim>\<open>try\<close> block.  \<open>scale_factor\<close> is a Python float; the two products
  \<^verbatim>\<open>src.width * scale_factor\<close> and \<^verbatim>\<open>src.height * scale_factor\<close> are products of doubles,
  truncated by \<^verbatim>\<open>int\<close>; the two quotients of the scale are quotients of integers.
  \<open>read_resampled src (count, new_height, new_width) m\<close> stands for
  \<^verbatim>\<open>src.read(out_shape=..., resampling=getattr(Resampling, m))\<close>, the decimated read of the
  library, which may raise.  Writing the output is taken to succeed.
\<close>

definition resample_body ::
  "('a raster \<Rightarrow> nat \<times> int \<times> int \<Rightarrow> string \<Rightarrow> exn + 'a list list) \<Rightarrow>
   'a raster \<Rightarrow> fpval \<Rightarrow> string \<Rightarrow> exn + 'a resampled" where
  "resample_body read_resampled src scale_factor resampling_method =
     (case py_float (r_width src) of Inl e \<Rightarrow> Inl e | Inr fw \<Rightarrow>
      case py_int (d_mul fw scale_factor) of Inl e \<Rightarrow> Inl e | Inr new_width \<Rightarrow>
      case py_float (r_height src) of Inl e \<Rightarrow> Inl e | Inr fh \<Rightarrow>
      case py_int (d_mul fh scale_factor) of Inl e \<Rightarrow> Inl e | Inr new_height \<Rightarrow>
      case py_truediv (r_width src) new_width of Inl e \<Rightarrow> Inl e | Inr sx \<Rightarrow>
      case py_truediv (r_height src) new_height of Inl e \<Rightarrow> Inl e | Inr sy \<Rightarrow>
      case read_resampled src (length (r_bands src), new_height, new_width)
             resampling_method of
        Inl e \<Rightarrow> Inl e
      | Inr data \<Rightarrow>
          Inr \<lparr>rs_crs = r_crs src,
               rs_transform = daffine_mul (daffine_of (r_transform src)) (daffine_scale sx sy),
               rs_width = new_width, rs_height = new_height,
               rs_dtype = r_dtype src, rs_nodata = r_nodata src, rs_bands = data\<rparr>)"

definition resample_raster ::
  "('a raster \<Rightarrow> nat \<times> int \<times> int \<Rightarrow> string \<Rightarrow> exn + 'a list list) \<Rightarrow>
   'a raster \<Rightarrow> fpval \<Rightarrow> string \<Rightarrow> exn + 'a resampled" where
  "resample_raster read_resampled src scale_factor resampling_method =
     (case resample_body read_resampled src scale_factor resampling_method of
        Inl e \<Rightarrow> Inl (GISProcessingError, ''Raster resampling failed: '' @ snd e)
      | Inr out \<Rightarrow> Inr out)"

section \<open>RasterProcessor.reproject\_raster\<close>

datatype Resampling = nearest | bilinear | cubic | average | mode

definition resampling_map :: "string \<Rightarrow> Resampling option" where
  "resampling_map =
     map_of [(''nearest'', nearest), (''bilinear'', bilinear), (''cubic'', cubic),
             (''average'', average), (''mode'', mode)]"

text \<open>
  The loop over the bands \<open>1 .. src.count\<close>.  Each round looks the kernel up in
  \<open>resampling_map\<close> (a \<open>KeyError\<close> for a name that is not a key) and calls the library's
  \<^verbatim>\<open>reproject\<close>, here \<open>warp\<close>, with the source band, the transform handed over as
  \<^verbatim>\<open>src_transform\<close>, the target CRS, the kernel and the grid of the destination.
\<close>

fun reproject_bands ::
  "('a raster \<Rightarrow> nat \<Rightarrow> affine \<Rightarrow> string \<Rightarrow> Resampling \<Rightarrow> int \<times> int \<Rightarrow> exn + 'a list) \<Rightarrow>
   'a raster \<Rightarrow> affine \<Rightarrow> string \<Rightarrow> string \<Rightarrow> int \<times> int \<Rightarrow> nat list \<Rightarrow> exn + 'a list list" where
  "reproject_bands warp src transform target_crs resampling_method grid [] = Inr []"
| "reproject_bands warp src transform target_crs resampling_method grid (i # rest) =
     (case resampling_map resampling_method of
        None \<Rightarrow> Inl (KeyError, [CHR 0x27] @ resampling_method @ [CHR 0x27])
      | Some resampling \<Rightarrow>
          (case warp src i transform target_crs resampling grid of
             Inl e \<Rightarrow> Inl e
           | Inr band \<Rightarrow>
               (case reproject_bands warp src transform target_crs resampling_method grid rest of
                  Inl e \<Rightarrow> Inl e
                | Inr bands \<Rightarrow> Inr (band # bands))))"

text \<open>
  The body of the \<^verbatim>\<open>try\<close> block.  \<open>cdt\<close> stands for the library's
  \<^verbatim>\<open>calculate_default_transform\<close>, called with the source CRS, the target CRS, the
  source's width and height and its bounds.
\<close>

definition reproject_body ::
  "(string option \<Rightarrow> string \<Rightarrow> int \<Rightarrow> int \<Rightarrow> rat \<times> rat \<times> rat \<times> rat \<Rightarrow> exn + affine \<times> int \<times> int) \<Rightarrow>
   ('a raster \<Rightarrow> nat \<Rightarrow> affine \<Rightarrow> string \<Rightarrow> Resampling \<Rightarrow> int \<times> int \<Rightarrow> exn + 'a list) \<Rightarrow>
   'a raster \<Rightarrow> string \<Rightarrow> string \<Rightarrow> exn + 'a raster" where
  "reproject_body cdt warp src target_crs resampling_method =
     (case cdt (r_crs src) target_crs (r_width src) (r_height src) (raster_bounds src) of
        Inl e \<Rightarrow> Inl e
      | Inr (transform, width, height) \<Rightarrow>
          (case reproject_bands warp src transform target_crs resampling_method (width, height)
                  [1 ..< length (r_bands src) + 1] of
             Inl e \<Rightarrow> Inl e
           | Inr bands \<Rightarrow>
               Inr (src\<lparr>r_crs := Some target_crs, r_transform := transform,
                        r_width := width, r_height := height, r_bands := bands\<rparr>)))"

definition reproject_raster ::
  "(string option \<Rightarrow> string \<Rightarrow> int \<Rightarrow> int \<Rightarrow> rat \<times> rat \<times> rat \<times> rat \<Rightarrow> exn + affine \<times> int \<times> int) \<Rightarrow>
   ('a raster \<Rightarrow> nat \<Rightarrow> affine \<Rightarrow> string \<Rightarrow> Resampling \<Rightarrow> int \<times> int \<Rightarrow> exn + 'a list) \<Rightarrow>
   'a raster \<Rightarrow> string \<Rightarrow> string \<Rightarrow> exn + 'a raster" where
  "reproject_raster cdt warp src target_crs resampling_method =
     (case reproject_body cdt warp src target_crs resampling_method of
        Inl e \<Rightarrow> Inl (GISProcessingError, ''Raster reprojection failed: '' @ snd e)
      | Inr out \<Rightarrow> Inr out)"

section \<open>VectorProcessor.union\_vectors\<close>

text \<open>
  A GeoDataFrame: its CRS and its rows in order.  A row (geometry and attributes) is a
  value of the type \<open>'f\<close>; attribute columns are not looked into.
\<close>

record 'f gdf =
  g_crs :: "string option"
  g_features :: "'f list"

text \<open>
  \<^verbatim>\<open>gdf.to_crs(target)\<close>: every row transformed by the coordinate transformation \<open>tr\<close>
  from the frame's CRS to the target; a frame without CRS cannot be transformed.
\<close>

definition gdf_to_crs :: "(string \<Rightarrow> string \<Rightarrow> 'f \<Rightarrow> 'f) \<Rightarrow> 'f gdf \<Rightarrow> string \<Rightarrow> exn + 'f gdf" where
  "gdf_to_crs tr g target =
     (case g_crs g of
        None \<Rightarrow> Inl (ValueError,
          ''Cannot transform naive geometries.  Please set a crs on the object first.'')
      | Some c \<Rightarrow> Inr \<lparr>g_crs = Some target, g_features = map (tr c target) (g_features g)\<rparr>)"

text \<open>The loading loop, with its two variables \<open>target_crs\<close> and \<open>gdfs\<close>.\<close>

fun union_load ::
  "(string \<Rightarrow> string \<Rightarrow> 'f \<Rightarrow> 'f) \<Rightarrow> string option \<Rightarrow> 'f gdf list \<Rightarrow> 'f gdf list \<Rightarrow>
   exn + string option \<times> 'f gdf list" where
  "union_load tr target_crs gdfs [] = Inr (target_crs, gdfs)"
| "union_load tr target_crs gdfs (g # rest) =
     (case target_crs of
        None \<Rightarrow> union_load tr (g_crs g) (gdfs @ [g]) rest
      | Some t \<Rightarrow>
          if g_crs g \<noteq> Some t
          then (case gdf_to_crs tr g t of
                  Inl e \<Rightarrow> Inl e
                | Inr g' \<Rightarrow> union_load tr target_crs (gdfs @ [g']) rest)
          else union_load tr target_crs (gdfs @ [g]) rest)"

text \<open>
  The body of the \<^verbatim>\<open>try\<close> block: \<^verbatim>\<open>pd.concat\<close> of the frames (it refuses an empty list),
  labelled with the target CRS.  The result is the frame handed to \<^verbatim>\<open>to_file\<close>.
\<close>

definition union_body :: "(string \<Rightarrow> string \<Rightarrow> 'f \<Rightarrow> 'f) \<Rightarrow> 'f gdf list \<Rightarrow> exn + 'f gdf" where
  "union_body tr inputs =
     (case union_load tr None [] inputs of
        Inl e \<Rightarrow> Inl e
      | Inr (target_crs, gdfs) \<Rightarrow>
          if gdfs = [] then Inl (ValueError, ''No objects to concatenate'')
          else Inr \<lparr>g_crs = target_crs, g_features = concat (map g_features gdfs)\<rparr>)"

definition union_vectors :: "(string \<Rightarrow> string \<Rightarrow> 'f \<Rightarrow> 'f) \<Rightarrow> 'f gdf list \<Rightarrow> exn + 'f gdf" where
  "union_vectors tr inputs =
     (case union_body tr inputs of
        Inl e \<Rightarrow> Inl (GISProcessingError, ''Union processing failed: '' @ snd e)
      | Inr out \<Rightarrow> Inr out)"

text \<open>The first CRS that is not \<open>None\<close>, in input order.\<close>

fun first_crs :: "'f gdf list \<Rightarrow> string option" where
  "first_crs [] = None"
| "first_crs (g # rest) = (case g_crs g of None \<Rightarrow> first_crs rest | Some c \<Rightarrow> Some c)"

section \<open>RasterProcessor.reclassify\_raster\<close>

text \<open>
  The rule set is a Python dictionary from \<open>(min_val, max_val)\<close> to the new value; its
  \<^verbatim>\<open>items()\<close> come in insertion order, so it is the list of its items.
\<close>

type_synonym 'a rules = "(('a \<times> 'a) \<times> int) list"

text \<open>
  The mask of one rule at one pixel:
  \<^verbatim>\<open>(data >= min_val) & (data <= max_val) & (data != src.nodata)\<close>, without the last
  conjunct when the source has no nodata value, each comparison as NumPy makes it on the
  element type \<open>ops\<close> of the band.
\<close>

definition in_rule :: "'a dtype_ops \<Rightarrow> 'a option \<Rightarrow> 'a \<times> 'a \<Rightarrow> 'a \<Rightarrow> bool" where
  "in_rule ops nd iv x =
     (np_ge ops x (fst iv) \<and> np_le ops x (snd iv)
      \<and> (case nd of None \<Rightarrow> True | Some n \<Rightarrow> np_ne ops x n))"

definition rule_mask :: "'a dtype_ops \<Rightarrow> 'a list \<Rightarrow> 'a option \<Rightarrow> 'a \<times> 'a \<Rightarrow> bool list" where
  "rule_mask ops data nd iv = map (in_rule ops nd iv) data"

text \<open>\<^verbatim>\<open>mask.sum()\<close> and \<^verbatim>\<open>array[mask] = v\<close>.\<close>

definition mask_sum :: "bool list \<Rightarrow> nat" where
  "mask_sum m = length (filter (\<lambda>b. b) m)"

definition assign_where :: "bool list \<Rightarrow> 'b \<Rightarrow> 'b list \<Rightarrow> 'b list" where
  "assign_where m v xs = map (\<lambda>(sel, x). if sel then v else x) (zip m xs)"

text \<open>
  The output array has the element type \<open>int32\<close>.  Storing a Python integer outside its
  range raises \<open>OverflowError\<close> (NumPy 2); inside the first loop the exception is caught
  by \<^verbatim>\<open>except Exception\<close>, which prints and goes on with the next rule.
\<close>

definition fits_int32 :: "int \<Rightarrow> bool" where
  "fits_int32 v = (- 2147483648 \<le> v \<and> v \<le> 2147483647)"

definition output_nodata :: int where
  "output_nodata = - 9999"

text \<open>The first loop over the rules, on \<open>(reclassified, pixels_classified)\<close>.\<close>

fun apply_rules ::
  "'a dtype_ops \<Rightarrow> 'a list \<Rightarrow> 'a option \<Rightarrow> 'a rules \<Rightarrow> int list \<times> nat \<Rightarrow> int list \<times> nat" where
  "apply_rules ops data nd [] st = st"
| "apply_rules ops data nd ((iv, new_val) # rest) (reclassified, pixels_classified) =
     (let mask = rule_mask ops data nd iv; pixel_count = mask_sum mask
      in if pixel_count > 0
         then (if fits_int32 new_val
               then apply_rules ops data nd rest
                      (assign_where mask new_val reclassified, pixels_classified + pixel_count)
               else apply_rules ops data nd rest (reclassified, pixels_classified))
         else apply_rules ops data nd rest (reclassified, pixels_classified))"

text \<open>The second loop: \<^verbatim>\<open>classified_mask |= rule_mask\<close> for every rule.\<close>

fun classified_loop ::
  "'a dtype_ops \<Rightarrow> 'a list \<Rightarrow> 'a option \<Rightarrow> 'a rules \<Rightarrow> bool list \<Rightarrow> bool list" where
  "classified_loop ops data nd [] classified_mask = classified_mask"
| "classified_loop ops data nd ((iv, new_val) # rest) classified_mask =
     classified_loop ops data nd rest
       (map (\<lambda>(c, m). c \<or> m) (zip classified_mask (rule_mask ops data nd iv)))"

text \<open>
  From \<^verbatim>\<open>np.full_like(data, -9999, dtype=np.int32)\<close> to the last assignment to
  \<open>reclassified\<close>: the array that is handed to the writer, or the \<open>ValueError\<close> of the
  guard.  \<^verbatim>\<open>data == src.nodata\<close> is the negation of \<^verbatim>\<open>data != src.nodata\<close>.
\<close>

definition reclassify_pixels ::
  "'a dtype_ops \<Rightarrow> 'a list \<Rightarrow> 'a option \<Rightarrow> 'a rules \<Rightarrow> exn + int list" where
  "reclassify_pixels ops data nd rules =
     (case apply_rules ops data nd rules (map (\<lambda>_. - 9999) data, 0) of
        (reclassified, pixels_classified) \<Rightarrow>
          if pixels_classified = 0
          then Inl (ValueError, ''No pixels were classified - check your classification rules'')
          else
            (let reclassified1 =
                   (case nd of
                      None \<Rightarrow> reclassified
                    | Some n \<Rightarrow>
                        assign_where (map (\<lambda>x. \<not> np_ne ops x n) data) output_nodata
                          reclassified);
                 classified_mask = classified_loop ops data nd rules (map (\<lambda>_. False) data);
                 unclassified_pixels =
                   (case nd of
                      None \<Rightarrow> map Not classified_mask
                    | Some n \<Rightarrow>
                        map (\<lambda>(c, x). \<not> c \<and> np_ne ops x n) (zip classified_mask data))
             in Inr (assign_where unclassified_pixels output_nodata reclassified1)))"

text \<open>
  What the file system and the library contribute to one call: whether
  \<^verbatim>\<open>input_path.exists()\<close> raises or what it returns, whether opening the input, reading
  band 1 or creating the output directory raises, whether the write raises and what it
  leaves at the output path, whether the check of the written file raises, whether
  \<^verbatim>\<open>output_path.exists()\<close> in the handler raises, and whether \<^verbatim>\<open>unlink\<close> succeeds.
\<close>

datatype write_leaves =
    LeavesUnchanged
  | LeavesNothing
  | LeavesEmpty
  | LeavesPartial
  | LeavesComplete

record rc_env =
  input_path :: string
  input_exists :: "exn + bool"
  open_error :: "exn option"
  read_error :: "exn option"
  mkdir_error :: "exn option"
  write_error :: "exn option"
  write_leaves :: write_leaves
  verify_error :: "exn option"
  handler_exists_error :: "exn option"
  unlink_ok :: bool

text \<open>
  What is found at the output path: nothing, or a file that is an older one, empty (of
  size 0), a part of the output, or the whole dataset written.
\<close>

datatype 'r file_content = OldData | EmptyFile | PartialData | Written 'r

datatype 'r path_state = Absent | File "'r file_content"

definition path_exists :: "'r path_state \<Rightarrow> bool" where
  "path_exists st = (st \<noteq> Absent)"

definition size_positive :: "'r path_state \<Rightarrow> bool" where
  "size_positive st = (st \<noteq> Absent \<and> st \<noteq> File EmptyFile)"

definition after_write :: "rc_env \<Rightarrow> 'r path_state \<Rightarrow> 'r \<Rightarrow> 'r path_state" where
  "after_write env out0 r =
     (case write_leaves env of
        LeavesUnchanged \<Rightarrow> out0
      | LeavesNothing \<Rightarrow> Absent
      | LeavesEmpty \<Rightarrow> File EmptyFile
      | LeavesPartial \<Rightarrow> File PartialData
      | LeavesComplete \<Rightarrow> File (Written r))"

text \<open>\<^verbatim>\<open>data = src.read(1)\<close> and the prints that follow it in the same \<^verbatim>\<open>try\<close>.\<close>

definition read_band1 :: "rc_env \<Rightarrow> 'a raster \<Rightarrow> exn + 'a list" where
  "read_band1 env src =
     (case read_error env of
        Some e \<Rightarrow> Inl e
      | None \<Rightarrow>
          (case r_bands src of
             [] \<Rightarrow> Inl (IndexError, ''band index 1 out of range (not in ())'')
           | data # _ \<Rightarrow>
               if data = []
               then Inl (ValueError,
                 ''zero-size array to reduction operation minimum which has no identity'')
               else Inr data))"

text \<open>
  The write and the check after it, inside their own \<^verbatim>\<open>try\<close>: every exception is
  replaced by a \<open>GISProcessingError\<close>; without one the call returns \<^verbatim>\<open>True\<close> when the
  output path exists and its size is positive.
\<close>

definition write_output ::
  "rc_env \<Rightarrow> int raster path_state \<Rightarrow> int raster \<Rightarrow> (exn + bool) \<times> int raster path_state" where
  "write_output env out0 r =
     (let out1 = after_write env out0 r
      in case write_error env of
           Some e \<Rightarrow>
             (Inl (GISProcessingError, ''Failed to write reclassified output: '' @ snd e), out1)
         | None \<Rightarrow>
             (case verify_error env of
                Some e \<Rightarrow>
                  (Inl (GISProcessingError, ''Failed to write reclassified output: '' @ snd e),
                   out1)
              | None \<Rightarrow>
                  if path_exists out1 \<and> size_positive out1 then (Inr True, out1)
                  else
                    (Inl (GISProcessingError,
                       ''Failed to write reclassified output: Reclassified file was not created properly''),
                     out1)))"

text \<open>The dataset handed to the writer: the metadata of the source, updated.\<close>

definition reclassified_dataset :: "'a raster \<Rightarrow> int list \<Rightarrow> int raster" where
  "reclassified_dataset src reclassified =
     \<lparr>r_crs = r_crs src, r_transform = r_transform src,
      r_width = r_width src, r_height = r_height src,
      r_dtype = ''int32'', r_nodata = Some output_nodata, r_bands = [reclassified]\<rparr>"

text \<open>The outer \<^verbatim>\<open>try\<close> block; with the result, the state of the output path.\<close>

definition reclassify_try ::
  "'a dtype_ops \<Rightarrow> rc_env \<Rightarrow> int raster path_state \<Rightarrow> 'a raster \<Rightarrow> 'a rules \<Rightarrow>
   (exn + bool) \<times> int raster path_state" where
  "reclassify_try ops env out0 src classification_rules =
     (case input_exists env of
        Inl e \<Rightarrow> (Inl e, out0)
      | Inr found \<Rightarrow>
          if \<not> found
          then (Inl (FileNotFoundError, ''Input raster not found: '' @ input_path env), out0)
          else if classification_rules = []
          then (Inl (ValueError, ''No classification rules provided''), out0)
          else (case open_error env of
              Some e \<Rightarrow> (Inl e, out0)
            | None \<Rightarrow>
                (case read_band1 env src of
                   Inl e \<Rightarrow>
                     (Inl (GISProcessingError, ''Failed to read input data: '' @ snd e), out0)
                 | Inr data \<Rightarrow>
                     (case reclassify_pixels ops data (r_nodata src) classification_rules of
                        Inl e \<Rightarrow> (Inl e, out0)
                      | Inr reclassified \<Rightarrow>
                          (case mkdir_error env of
                             Some e \<Rightarrow> (Inl e, out0)
                           | None \<Rightarrow>
                               write_output env out0
                                 (reclassified_dataset src reclassified))))))"

text \<open>
  \<open>reclassify_raster\<close>: the handler of the outer \<^verbatim>\<open>try\<close> asks whether the output path
  exists, outside any \<^verbatim>\<open>try\<close> of its own, so that an exception of this question is what
  the caller receives; otherwise it removes the file when it exists, ignores a failure of
  the removal, and raises \<open>GISProcessingError\<close>.
\<close>

definition cleanup :: "rc_env \<Rightarrow> 'r path_state \<Rightarrow> 'r path_state" where
  "cleanup env out1 =
     (case out1 of Absent \<Rightarrow> Absent | File c \<Rightarrow> if unlink_ok env then Absent else File c)"

definition reclassify_raster ::
  "'a dtype_ops \<Rightarrow> rc_env \<Rightarrow> int raster path_state \<Rightarrow> 'a raster \<Rightarrow> 'a rules \<Rightarrow>
   (exn + bool) \<times> int raster path_state" where
  "reclassify_raster ops env out0 src classification_rules =
     (case reclassify_try ops env out0 src classification_rules of
        (Inr ok, out1) \<Rightarrow> (Inr ok, out1)
      | (Inl e, out1) \<Rightarrow>
          (case handler_exists_error env of
             Some x \<Rightarrow> (Inl x, out1)
           | None \<Rightarrow>
               (Inl (GISProcessingError, ''Raster reclassification failed: '' @ snd e),
                cleanup env out1)))"

text \<open>
  The reading of the rule set that the specification gives: the class of the last rule, in
  iteration order, whose mask holds at the pixel and whose class can be stored; the nodata
  value of the output when there is none.
\<close>

definition last_match :: "'a dtype_ops \<Rightarrow> 'a option \<Rightarrow> 'a rules \<Rightarrow> 'a \<Rightarrow> int" where
  "last_match ops nd rules x =
     (case filter (\<lambda>r. in_rule ops nd (fst r) x \<and> fits_int32 (snd r)) rules of
        [] \<Rightarrow> output_nodata
      | ms \<Rightarrow> snd (last ms))"

text \<open>Two closed intervals share a value; no two rules of a rule set do.\<close>

definition overlap :: "'a::linorder \<times> 'a \<Rightarrow> 'a \<times> 'a \<Rightarrow> bool" where
  "overlap iv iv' = (max (fst iv) (fst iv') \<le> min (snd iv) (snd iv'))"

fun non_overlapping :: "'a::linorder rules \<Rightarrow> bool" where
  "non_overlapping [] = True"
| "non_overlapping (r # rest) =
     (list_all (\<lambda>r'. \<not> overlap (fst r) (fst r')) rest \<and> non_overlapping rest)"

text \<open>
  No pixel of the band is matched by the masks of two rules; and an element type whose
  comparisons with a scalar are the exact ones of a linear order.
\<close>

definition disjoint_masks :: "'a dtype_ops \<Rightarrow> 'a option \<Rightarrow> 'a rules \<Rightarrow> 'a list \<Rightarrow> bool" where
  "disjoint_masks ops nd rules data =
     list_all (\<lambda>x. length (filter (\<lambda>r. in_rule ops nd (fst r) x) rules) \<le> 1) data"

definition exact_comparisons :: "'a::linorder dtype_ops \<Rightarrow> bool" where
  "exact_comparisons ops =
     (np_ge ops = (\<lambda>x s. s \<le> x) \<and> np_le ops = (\<lambda>x s. x \<le> s) \<and> np_ne ops = (\<lambda>x s. x \<noteq> s))"

text \<open>
  Two quantities of the first loop, for one pixel and for one rule: the value the pixel
  holds after the loop when it held \<open>r0\<close> before, and the number a rule adds to
  \<open>pixels_classified\<close>.
\<close>

definition pick :: "'a dtype_ops \<Rightarrow> 'a option \<Rightarrow> 'a rules \<Rightarrow> 'a \<Rightarrow> int \<Rightarrow> int" where
  "pick ops nd rules x r0 =
     (case filter (\<lambda>r. in_rule ops nd (fst r) x \<and> fits_int32 (snd r)) rules of
        [] \<Rightarrow> r0
      | ms \<Rightarrow> snd (last ms))"

definition rule_count :: "'a dtype_ops \<Rightarrow> 'a list \<Rightarrow> 'a option \<Rightarrow> ('a \<times> 'a) \<times> int \<Rightarrow> nat" where
  "rule_count ops data nd r =
     (if fits_int32 (snd r) then mask_sum (rule_mask ops data nd (fst r)) else 0)"

section \<open>Example inputs\<close>

definition epsg_4326 :: ProjectionInfo where
  "epsg_4326 =
     \<lparr>epsg_code = Some 4326, proj4_string = None, wkt_string = None, authority = None\<rparr>"

definition proj_only :: ProjectionInfo where
  "proj_only =
     \<lparr>epsg_code = None, proj4_string = Some ''+proj=longlat'', wkt_string = None,
      authority = None\<rparr>"

definition wkt_only :: ProjectionInfo where
  "wkt_only =
     \<lparr>epsg_code = Some 0, proj4_string = Some [], wkt_string = Some ''GEOGCS[]'',
      authority = None\<rparr>"

text \<open>
  A 2 x 2 integer source, a mask on the same grid, the same mask in another CRS, and the
  source without a nodata value.
\<close>

definition raster_2x2 :: "int raster" where
  "raster_2x2 =
     \<lparr>r_crs = Some ''EPSG:4326'',
      r_transform = \<lparr>af_a = 1, af_b = 0, af_c = 0, af_d = 0, af_e = - 1, af_f = 2\<rparr>,
      r_width = 2, r_height = 2, r_dtype = ''int32'', r_nodata = Some (- 1),
      r_bands = [[1, 2, 3, 4], [5, 6, 7, 8]]\<rparr>"

definition mask_2x2 :: "int raster" where
  "mask_2x2 = raster_2x2\<lparr>r_nodata := Some 0, r_bands := [[0, 1, 1, 0]]\<rparr>"

definition mask_3857 :: "int raster" where
  "mask_3857 = mask_2x2\<lparr>r_crs := Some ''EPSG:3857''\<rparr>"

definition raster_no_nodata :: "int raster" where
  "raster_no_nodata = raster_2x2\<lparr>r_nodata := None\<rparr>"

text \<open>
  A float64 source of two pixels and a float64 mask on its grid whose nodata value is NaN
  and whose first pixel is NaN.
\<close>

definition raster_f64 :: "fpval raster" where
  "raster_f64 =
     \<lparr>r_crs = Some ''EPSG:4326'',
      r_transform = \<lparr>af_a = 1, af_b = 0, af_c = 0, af_d = 0, af_e = - 1, af_f = 1\<rparr>,
      r_width = 2, r_height = 1, r_dtype = ''float64'', r_nodata = Some (Fin 0),
      r_bands = [[Fin 7, Fin 8]]\<rparr>"

definition mask_nan :: "fpval raster" where
  "mask_nan = raster_f64\<lparr>r_nodata := Some NaN, r_bands := [[NaN, Fin 1]]\<rparr>"

text \<open>
  A 4 x 4 and a 10 x 10 source, and a decimated read that keeps the first \<open>h * w\<close> pixels
  of a band.  The doubles nearest to 0.7 and to 10/7.
\<close>

definition raster_4x4 :: "int raster" where
  "raster_4x4 =
     \<lparr>r_crs = Some ''EPSG:4326'',
      r_transform = \<lparr>af_a = 1, af_b = 0, af_c = 0, af_d = 0, af_e = - 1, af_f = 4\<rparr>,
      r_width = 4, r_height = 4, r_dtype = ''int32'', r_nodata = Some (- 1),
      r_bands = [[1, 2, 3, 4, 5, 6, 7, 8, 9, 10, 11, 12, 13, 14, 15, 16]]\<rparr>"

definition raster_10x10 :: "int raster" where
  "raster_10x10 =
     \<lparr>r_crs = Some ''EPSG:4326'',
      r_transform = \<lparr>af_a = 1, af_b = 0, af_c = 0, af_d = 0, af_e = - 1, af_f = 10\<rparr>,
      r_width = 10, r_height = 10, r_dtype = ''int32'', r_nodata = Some (- 1),
      r_bands = [replicate 100 1]\<rparr>"

definition read_first :: "int raster \<Rightarrow> nat \<times> int \<times> int \<Rightarrow> string \<Rightarrow> exn + int list list" where
  "read_first src shape m =
     Inr (map (take (nat (fst (snd shape) * snd (snd shape)))) (r_bands src))"

definition double_0_7 :: rat where
  "double_0_7 = 3152519739159347 / 4503599627370496"

definition double_10_7 :: rat where
  "double_10_7 = 6433713753386423 / 4503599627370496"

text \<open>
  A stand-in for the library on one grid: the default transform doubles the pixel size
  and halves the grid; the warp gives the first pixel of the band for \<open>nearest\<close> and the
  sum of the band for the other kernels.
\<close>

definition cdt_half ::
  "string option \<Rightarrow> string \<Rightarrow> int \<Rightarrow> int \<Rightarrow> rat \<times> rat \<times> rat \<times> rat \<Rightarrow> exn + affine \<times> int \<times> int" where
  "cdt_half src_crs dst_crs w h b =
     (case src_crs of
        None \<Rightarrow> Inl (Exception, ''no source CRS'')
      | Some c \<Rightarrow>
          Inr (\<lparr>af_a = 2, af_b = 0, af_c = fst b, af_d = 0, af_e = - 2,
                af_f = snd (snd (snd b))\<rparr>, w div 2, h div 2))"

definition warp_toy ::
  "int raster \<Rightarrow> nat \<Rightarrow> affine \<Rightarrow> string \<Rightarrow> Resampling \<Rightarrow> int \<times> int \<Rightarrow> exn + int list" where
  "warp_toy src i t dst_crs k grid =
     (if k = nearest then Inr (take 1 (r_bands src ! (i - 1)))
      else Inr [sum_list (r_bands src ! (i - 1))])"

text \<open>Two frames of points in different CRS, and a coordinate change that shifts a point.\<close>

definition frame_a :: "(int \<times> int) gdf" where
  "frame_a = \<lparr>g_crs = Some ''EPSG:4326'', g_features = [(0, 0), (1, 1)]\<rparr>"

definition frame_b :: "(int \<times> int) gdf" where
  "frame_b = \<lparr>g_crs = Some ''EPSG:3857'', g_features = [(1, 1), (5, 5), (7, 7)]\<rparr>"

definition shift :: "string \<Rightarrow> string \<Rightarrow> int \<times> int \<Rightarrow> int \<times> int" where
  "shift src_crs dst_crs pt = (fst pt + 100, snd pt + 100)"

text \<open>
  A one-band integer source of four pixels with the nodata value -1, and one of one pixel
  without a nodata value.  A float32 source of four pixels, the float32 values nearest to
  0.1, 0.5, 0.7 and 2.5, and one of the single pixel 1; the doubles nearest to 0.1 and
  0.6.
\<close>

definition raster_px :: "int raster" where
  "raster_px =
     \<lparr>r_crs = Some ''EPSG:4326'',
      r_transform = \<lparr>af_a = 1, af_b = 0, af_c = 0, af_d = 0, af_e = - 1, af_f = 2\<rparr>,
      r_width = 2, r_height = 2, r_dtype = ''int16'', r_nodata = Some (- 1),
      r_bands = [[5, 60, 200, - 1]]\<rparr>"

definition raster_one :: "int raster" where
  "raster_one =
     \<lparr>r_crs = Some ''EPSG:4326'',
      r_transform = \<lparr>af_a = 1, af_b = 0, af_c = 0, af_d = 0, af_e = - 1, af_f = 1\<rparr>,
      r_width = 1, r_height = 1, r_dtype = ''int16'', r_nodata = None,
      r_bands = [[5]]\<rparr>"

definition float32_0_1 :: rat where
  "float32_0_1 = 13421773 / 134217728"

definition float32_0_7 :: rat where
  "float32_0_7 = 11744051 / 16777216"

definition double_0_1 :: rat where
  "double_0_1 = 3602879701896397 / 36028797018963968"

definition double_0_6 :: rat where
  "double_0_6 = 5404319552844595 / 9007199254740992"

definition raster_f32 :: "fpval raster" where
  "raster_f32 =
     \<lparr>r_crs = Some ''EPSG:4326'',
      r_transform = \<lparr>af_a = 1, af_b = 0, af_c = 0, af_d = 0, af_e = - 1, af_f = 2\<rparr>,
      r_width = 2, r_height = 2, r_dtype = ''float32'', r_nodata = None,
      r_bands = [[Fin float32_0_1, Fin (1 / 2), Fin float32_0_7, Fin (5 / 2)]]\<rparr>"

text \<open>
  Four environments: every file operation succeeds; the write raises after leaving a
  part of the file and the removal fails as well; the output directory cannot be
  searched, so that the question of the handler raises; the write returns without an
  exception and leaves a part of the file.
\<close>

definition env_ok :: rc_env where
  "env_ok =
     \<lparr>input_path = ''in.tif'', input_exists = Inr True, open_error = None,
      read_error = None, mkdir_error = None, write_error = None,
      write_leaves = LeavesComplete, verify_error = None, handler_exists_error = None,
      unlink_ok = True\<rparr>"

definition env_stuck :: rc_env where
  "env_stuck =
     env_ok\<lparr>write_error := Some (OSError, ''No space left on device''),
            write_leaves := LeavesPartial, unlink_ok := False\<rparr>"

definition env_noaccess :: rc_env where
  "env_noaccess =
     env_ok\<lparr>mkdir_error := Some (PermissionError, ''Permission denied''),
            write_leaves := LeavesUnchanged,
            handler_exists_error := Some (PermissionError, ''Permission denied'')\<rparr>"

definition env_truncating :: rc_env where
  "env_truncating = env_ok\<lparr>write_leaves := LeavesPartial\<rparr>"

section \<open>Properties of the floating-point model\<close>

lemma pow2_powi: "pow2 e = 2 powi e"
  by (simp add: pow2_def power_int_def inverse_eq_divide power_one_over)

lemma pow2_pos [simp]: "0 < pow2 e"
  by (simp add: pow2_powi)

lemma pow2_add: "pow2 (a + b) = pow2 a * pow2 b"
  by (simp add: pow2_powi power_int_add)

lemma pow2_diff: "pow2 (a - b) = pow2 a / pow2 b"
  by (simp add: pow2_powi power_int_diff)

lemma pow2_mono: "a \<le> b \<Longrightarrow> pow2 a \<le> pow2 b"
  by (simp add: pow2_powi power_int_increasing)

lemma pow2_strict_mono: "a < b \<Longrightarrow> pow2 a < pow2 b"
  by (simp add: pow2_powi power_int_strict_increasing)

lemma pow2_less_cancel: "pow2 a < pow2 b \<Longrightarrow> a < b"
  using pow2_mono [of b a] by (cases "a < b") auto

lemma pow2_le_cancel: "pow2 a \<le> pow2 b \<Longrightarrow> a \<le> b"
  using pow2_strict_mono [of b a] by (cases "a \<le> b") auto

lemma pow2_nat: "0 \<le> e \<Longrightarrow> pow2 e = of_int (2 ^ nat e)"
  by (simp add: pow2_def)

lemma pow2_0 [simp]: "pow2 0 = 1"
  by (simp add: pow2_def)

lemma bitlen_bounds:
  "0 < n \<Longrightarrow> 1 \<le> bitlen n \<and> 2 ^ nat (bitlen n - 1) \<le> n \<and> n < 2 ^ nat (bitlen n)"
proof (induction n rule: bitlen.induct)
  case (1 n)
  show ?case
  proof (cases "n div 2 = 0")
    case True
    with "1.prems" have "n = 1" by presburger
    then show ?thesis
      by (simp add: bitlen.simps [of 1] bitlen.simps [of 0])
  next
    case False
    with "1.prems" have pos: "0 < n div 2" by presburger
    let ?k = "bitlen (n div 2)"
    from "1.IH" "1.prems" pos
    have k: "1 \<le> ?k" and lo: "2 ^ nat (?k - 1) \<le> n div 2" and hi: "n div 2 < 2 ^ nat ?k"
      by simp_all
    have bl: "bitlen n = 1 + ?k"
      using "1.prems" by (subst bitlen.simps) simp
    have e: "nat (1 + ?k) = Suc (nat ?k)" "nat ?k = Suc (nat (?k - 1))"
      using k by simp_all
    have "2 * 2 ^ nat (?k - 1) \<le> n"
      using lo by presburger
    moreover have "n < 2 * 2 ^ nat ?k"
      using hi by presburger
    ultimately show ?thesis
      using k e by (simp add: bl)
  qed
qed

lemma bitlen_pow2:
  assumes "0 < n"
  shows "pow2 (bitlen n - 1) \<le> of_int n" "of_int n < pow2 (bitlen n)"
proof -
  note b = bitlen_bounds [OF assms]
  have "(of_int (2 ^ nat (bitlen n - 1)) :: rat) \<le> of_int n"
    using b by (simp only: of_int_le_iff)
  then show "pow2 (bitlen n - 1) \<le> of_int n"
    using b by (simp add: pow2_nat)
  have "(of_int n :: rat) < of_int (2 ^ nat (bitlen n))"
    using b by (simp only: of_int_less_iff)
  then show "of_int n < pow2 (bitlen n)"
    using b by (simp add: pow2_nat)
qed

lemma ilog2_bounds:
  assumes "0 < x"
  shows "pow2 (ilog2 x) \<le> x" "x < pow2 (ilog2 x + 1)"
proof -
  obtain n d where q: "quotient_of x = (n, d)"
    by (cases "quotient_of x")
  have d: "0 < d" using q by (rule quotient_of_denom_pos)
  have x: "x = of_int n / of_int d" using q by (rule quotient_of_div)
  have n: "0 < n"
    using assms d by (simp add: x zero_less_divide_iff)
  let ?k = "bitlen n - bitlen d"
  have lower: "pow2 (?k - 1) \<le> x"
  proof -
    have "pow2 (?k - 1) = pow2 (bitlen n - 1) / pow2 (bitlen d)"
      by (simp add: pow2_diff [symmetric] algebra_simps)
    also have "\<dots> \<le> of_int n / pow2 (bitlen d)"
      by (rule divide_right_mono [OF bitlen_pow2(1) [OF n] less_imp_le [OF pow2_pos]])
    also have "\<dots> \<le> of_int n / of_int d"
    proof (rule frac_le)
      show "(0::rat) \<le> of_int n" using n by simp
      show "(of_int n :: rat) \<le> of_int n" by simp
      show "(0::rat) < of_int d" using d by simp
      show "of_int d \<le> pow2 (bitlen d)" using bitlen_pow2(2) [OF d] by simp
    qed
    finally show ?thesis by (simp add: x)
  qed
  have upper: "x < pow2 (?k + 1)"
  proof -
    have "x = of_int n / of_int d" by (rule x)
    also have "\<dots> < pow2 (bitlen n) / of_int d"
      using bitlen_pow2(2) [OF n] d by (intro divide_strict_right_mono) simp_all
    also have "\<dots> \<le> pow2 (bitlen n) / pow2 (bitlen d - 1)"
    proof (rule frac_le)
      show "0 \<le> pow2 (bitlen n)" by (rule less_imp_le [OF pow2_pos])
      show "pow2 (bitlen n) \<le> pow2 (bitlen n)" by simp
      show "0 < pow2 (bitlen d - 1)" by simp
      show "pow2 (bitlen d - 1) \<le> of_int d" by (rule bitlen_pow2(1) [OF d])
    qed
    also have "\<dots> = pow2 (?k + 1)"
      by (simp add: pow2_diff [symmetric] algebra_simps)
    finally show ?thesis .
  qed
  have il: "ilog2 x = (if pow2 ?k \<le> x then ?k else ?k - 1)"
    by (simp add: ilog2_def q Let_def)
  show "pow2 (ilog2 x) \<le> x"
    using lower by (simp add: il)
  show "x < pow2 (ilog2 x + 1)"
    using upper by (auto simp: il not_le)
qed

lemma ilog2_unique:
  assumes "pow2 e \<le> x" "x < pow2 (e + 1)"
  shows "ilog2 x = e"
proof -
  have pos: "0 < x"
    using assms(1) pow2_pos [of e] by linarith
  note b = ilog2_bounds [OF pos]
  have "pow2 e < pow2 (ilog2 x + 1)"
    using assms(1) b(2) by linarith
  then have 1: "e \<le> ilog2 x"
    using pow2_less_cancel by fastforce
  have "pow2 (ilog2 x) < pow2 (e + 1)"
    using assms(2) b(1) by linarith
  then have 2: "ilog2 x \<le> e"
    using pow2_less_cancel by fastforce
  from 1 2 show ?thesis by simp
qed


lemma round_half_even_int [simp]: "round_half_even (of_int z) = z"
  by (simp add: round_half_even_def)

lemma round_half_even_error: "\<bar>of_int (round_half_even x) - x\<bar> \<le> 1 / 2"
proof -
  have "of_int \<lfloor>x\<rfloor> \<le> x" "x < of_int \<lfloor>x\<rfloor> + 1"
    by linarith+
  then show ?thesis
    by (auto simp: round_half_even_def Let_def abs_le_iff)
qed

lemma pow2_nonneg [simp]: "0 \<le> pow2 e"
  using pow2_pos [of e] by (rule less_imp_le)

lemma pow2_neq0 [simp]: "pow2 e \<noteq> 0"
  using pow2_pos [of e] by (rule less_imp_neq [THEN not_sym])

lemma div_cancel_helper: "a = b * q \<Longrightarrow> 0 < q \<Longrightarrow> a / q = (b::rat)"
  by simp

text \<open>The parts of \<open>round_binary\<close> for an argument that is not zero.\<close>

lemma round_binary_nonzero:
  "x \<noteq> 0 \<Longrightarrow>
   round_binary p emin emax x =
     (if pow2 emax \<le>
           of_int (round_half_even
             (\<bar>x\<bar> / pow2 (max (ilog2 \<bar>x\<bar>) emin - (int p - 1)))) *
           pow2 (max (ilog2 \<bar>x\<bar>) emin - (int p - 1))
      then (if 0 < x then PInf else NInf)
      else Fin (if 0 < x
             then of_int (round_half_even
                    (\<bar>x\<bar> / pow2 (max (ilog2 \<bar>x\<bar>) emin - (int p - 1)))) *
                  pow2 (max (ilog2 \<bar>x\<bar>) emin - (int p - 1))
             else - (of_int (round_half_even
                    (\<bar>x\<bar> / pow2 (max (ilog2 \<bar>x\<bar>) emin - (int p - 1)))) *
                  pow2 (max (ilog2 \<bar>x\<bar>) emin - (int p - 1)))))"
  by (simp add: round_binary_def Let_def)

lemma round_binary_exact:
  assumes x: "\<bar>x\<bar> = of_int m * pow2 k" and m: "0 < m" "m < 2 ^ p"
    and k: "emin - (int p - 1) \<le> k" and fin: "\<bar>x\<bar> < pow2 emax"
  shows "round_binary p emin emax x = Fin x"
proof -
  let ?a = "\<bar>x\<bar>"
  have apos: "0 < ?a"
    using x m by simp
  then have x0: "x \<noteq> 0" by auto
  let ?e = "max (ilog2 ?a) emin"
  let ?q = "pow2 (?e - (int p - 1))"
  have "of_int m < (2 ^ p :: rat)"
    using m(2) by (metis of_int_less_iff of_int_numeral of_int_power)
  then have "?a < 2 ^ p * pow2 k"
    by (simp add: x)
  also have "\<dots> = pow2 (k + int p)"
    by (simp add: pow2_add pow2_nat)
  finally have "pow2 (ilog2 ?a) < pow2 (k + int p)"
    using ilog2_bounds(1) [OF apos] by linarith
  then have "ilog2 ?a < k + int p"
    by (rule pow2_less_cancel)
  then have e: "?e - (int p - 1) \<le> k"
    using k by simp
  define j where "j = k - (?e - (int p - 1))"
  have j: "0 \<le> j" using e by (simp add: j_def)
  have pk: "pow2 k = pow2 j * ?q"
    unfolding j_def by (simp add: pow2_add [symmetric])
  have "?a = (of_int m * pow2 j) * ?q"
    using x pk by (metis mult.assoc)
  then have "?a / ?q = of_int m * pow2 j"
    by (rule div_cancel_helper) (rule pow2_pos)
  also have "\<dots> = of_int (m * 2 ^ nat j)"
    using j by (simp add: pow2_nat)
  finally have quo: "?a / ?q = of_int (m * 2 ^ nat j)" .
  have y: "of_int (round_half_even (?a / ?q)) * ?q = ?a"
  proof -
    have "of_int (round_half_even (?a / ?q)) * ?q = (?a / ?q) * ?q"
      by (simp only: quo round_half_even_int)
    then show ?thesis by simp
  qed
  have rb: "round_binary p emin emax x =
          (if pow2 emax \<le> ?a then (if 0 < x then PInf else NInf)
           else Fin (if 0 < x then ?a else - ?a))"
    using round_binary_nonzero [OF x0, of p emin emax] unfolding y .
  have "\<not> pow2 emax \<le> ?a"
    using fin by simp
  moreover have "(if 0 < x then ?a else - ?a) = x"
    by simp
  ultimately show ?thesis
    by (simp only: rb if_False)
qed

lemma round_binary_finite:
  assumes p: "1 \<le> p" and em: "emin < emax" and b: "\<bar>x\<bar> \<le> pow2 (emax - 1)"
  shows "\<exists>y. round_binary p emin emax x = Fin y"
proof (cases "x = 0")
  case True
  then show ?thesis by (simp add: round_binary_def)
next
  case False
  let ?a = "\<bar>x\<bar>"
  have apos: "0 < ?a" using False by simp
  let ?e = "max (ilog2 ?a) emin"
  let ?q = "pow2 (?e - (int p - 1))"
  let ?y = "of_int (round_half_even (?a / ?q)) * ?q"
  have "pow2 (ilog2 ?a) \<le> pow2 (emax - 1)"
    using ilog2_bounds(1) [OF apos] b by linarith
  then have "ilog2 ?a \<le> emax - 1"
    by (rule pow2_le_cancel)
  then have "?e - (int p - 1) \<le> emax - 1"
    using em p by simp
  then have q: "?q \<le> pow2 (emax - 1)"
    by (rule pow2_mono)
  have "of_int (round_half_even (?a / ?q)) - ?a / ?q
          \<le> \<bar>of_int (round_half_even (?a / ?q)) - ?a / ?q\<bar>"
    by (rule abs_ge_self)
  then have "of_int (round_half_even (?a / ?q)) \<le> ?a / ?q + 1 / 2"
    using round_half_even_error [of "?a / ?q"] by linarith
  then have "?y \<le> (?a / ?q + 1 / 2) * ?q"
    by (intro mult_right_mono) simp_all
  also have "\<dots> = ?a + ?q / 2"
    by (simp add: algebra_simps)
  also have "\<dots> \<le> pow2 (emax - 1) + pow2 (emax - 1) / 2"
    using b q by linarith
  also have "\<dots> < 2 * pow2 (emax - 1)"
    using pow2_pos [of "emax - 1"] by linarith
  also have "\<dots> = pow2 emax"
    using pow2_add [of "emax - 1" 1] by (simp add: pow2_def)
  finally have "\<not> pow2 emax \<le> ?y" by simp
  then show ?thesis
    by (simp add: round_binary_nonzero [OF False])
qed

lemma round_binary_error:
  assumes n: "pow2 emin \<le> \<bar>x\<bar>" and r: "round_binary p emin emax x = Fin y"
  shows "\<bar>y - x\<bar> \<le> \<bar>x\<bar> / 2 ^ p"
proof -
  let ?a = "\<bar>x\<bar>"
  have apos: "0 < ?a"
    using n pow2_pos [of emin] by linarith
  then have x0: "x \<noteq> 0" by auto
  have "pow2 emin < pow2 (ilog2 ?a + 1)"
    using n ilog2_bounds(2) [OF apos] by linarith
  then have "emin < ilog2 ?a + 1"
    by (rule pow2_less_cancel)
  then have e: "max (ilog2 ?a) emin = ilog2 ?a" by simp
  let ?q = "pow2 (ilog2 ?a - (int p - 1))"
  let ?z = "of_int (round_half_even (?a / ?q)) * ?q"
  have rb: "round_binary p emin emax x =
          (if pow2 emax \<le> ?z then (if 0 < x then PInf else NInf)
           else Fin (if 0 < x then ?z else - ?z))"
    using round_binary_nonzero [OF x0, of p emin emax] unfolding e .
  have yz: "y = (if 0 < x then ?z else - ?z)"
    using r unfolding rb by (simp split: if_splits)
  have "\<bar>?z - ?a\<bar> = \<bar>of_int (round_half_even (?a / ?q)) - ?a / ?q\<bar> * ?q"
  proof -
    have "?z - ?a = (of_int (round_half_even (?a / ?q)) - ?a / ?q) * ?q"
      by (simp add: algebra_simps)
    then show ?thesis
      by (simp add: abs_mult)
  qed
  also have "\<dots> \<le> (1 / 2) * ?q"
    by (intro mult_right_mono round_half_even_error) simp
  also have "\<dots> = pow2 (ilog2 ?a) / 2 ^ p"
  proof -
    have "pow2 (ilog2 ?a) = pow2 (ilog2 ?a - (int p - 1)) * pow2 (int p - 1)"
      by (simp add: pow2_add [symmetric])
    moreover have "2 * pow2 (int p - 1) = 2 ^ p"
      using pow2_add [of "int p - 1" 1] by (simp add: pow2_def)
    ultimately show ?thesis
      by (simp add: field_simps)
  qed
  also have "\<dots> \<le> ?a / 2 ^ p"
    by (intro divide_right_mono ilog2_bounds(1) [OF apos]) simp
  finally have "\<bar>?z - ?a\<bar> \<le> ?a / 2 ^ p" .
  moreover have "\<bar>y - x\<bar> = \<bar>?z - ?a\<bar>"
  proof (cases "0 < x")
    case True
    then have "y = ?z" "?a = x" by (simp_all add: yz)
    then show ?thesis by (simp only:)
  next
    case False
    then have yv: "y = - ?z" and av: "?a = - x" by (simp_all add: yz)
    have "\<bar>y - x\<bar> = \<bar>- (?z - ?a)\<bar>"
      by (simp only: yv av | simp)+
    then show ?thesis by (simp only: abs_minus_cancel)
  qed
  ultimately show ?thesis by simp
qed


section \<open>Properties of the exception hierarchy\<close>

lemma issubclass_refl: "issubclass c c"
  by (simp add: issubclass.simps)

text \<open>
  Claim C10.  Each of the five error kinds of \<^verbatim>\<open>exceptions.py\<close> (the base class
  \<open>GISProcessingError\<close> and its four specialisations) is a subclass of
  \<open>GISProcessingError\<close>, so a handler for \<open>GISProcessingError\<close> catches an exception of
  any of the five kinds, whatever its message: the kinds are not disjoint.
\<close>

theorem error_kinds_subclass_of_base:
  "issubclass GISProcessingError GISProcessingError
   \<and> issubclass ProjectionError GISProcessingError
   \<and> issubclass DataFormatError GISProcessingError
   \<and> issubclass GeometryError GISProcessingError
   \<and> issubclass FileAccessError GISProcessingError
   \<and> catches GISProcessingError (GISProcessingError, msg)
   \<and> catches GISProcessingError (ProjectionError, msg)
   \<and> catches GISProcessingError (DataFormatError, msg)
   \<and> catches GISProcessingError (GeometryError, msg)
   \<and> catches GISProcessingError (FileAccessError, msg)"
  by (simp add: catches_def issubclass.simps)

section \<open>Projection resolution\<close>

text \<open>
  Claim C9, as the code has it.  \<open>to_crs\<close> is a function of the projection alone.  With
  an EPSG code that is set and not zero it gives \<open>EPSG:\<close> followed by the code in decimal
  (the field \<open>authority\<close> is not read); otherwise the proj string when that is set and
  not empty; otherwise the WKT string when that is set and not empty; with nothing
  populated it gives \<open>None\<close>, Python's null, without raising.  A result handed back as a
  raw string resolves to itself.
\<close>

theorem to_crs_resolution:
  "(epsg_code p = Some n \<and> n \<noteq> 0 \<longrightarrow> to_crs p = Some (''EPSG:'' @ str_int n))
   \<and> (\<not> truthy_int (epsg_code p) \<and> proj4_string p = Some s \<and> s \<noteq> [] \<longrightarrow> to_crs p = Some s)
   \<and> (\<not> truthy_int (epsg_code p) \<and> \<not> truthy_str (proj4_string p)
        \<and> wkt_string p = Some s \<and> s \<noteq> [] \<longrightarrow> to_crs p = Some s)
   \<and> (epsg_code p = None \<and> proj4_string p = None \<and> wkt_string p = None \<longrightarrow> to_crs p = None)
   \<and> (to_crs p = Some c \<longrightarrow> c \<noteq> [] \<and> to_crs (from_string c) = Some c)"
  by (auto simp: to_crs_def truthy_int_def truthy_str_def from_string_def
           split: option.splits if_splits)

lemma str_int_4326: "str_int 4326 = ''4326''"
  by (simp add: str_int_def str_nat.simps digit_char_def)

theorem to_crs_resolution_witness:
  "to_crs epsg_4326 = Some ''EPSG:4326''
   \<and> to_crs (from_string ''EPSG:4326'') = Some ''EPSG:4326''
   \<and> to_crs proj_only = Some ''+proj=longlat''
   \<and> to_crs wkt_only = Some ''GEOGCS[]''
   \<and> to_crs unset_projection = None"
  using to_crs_resolution [of epsg_4326 4326 "''x''" "''EPSG:4326''"]
    to_crs_resolution [of proj_only 0 "''+proj=longlat''" "''x''"]
    to_crs_resolution [of wkt_only 0 "''GEOGCS[]''" "''x''"]
    to_crs_resolution [of unset_projection 0 "''x''" "''x''"]
  by (simp add: epsg_4326_def proj_only_def wkt_only_def unset_projection_def truthy_int_def
        truthy_str_def str_int_4326)

text \<open>
  The claim as it is written names the string \<open>unknown\<close> as the result for an unset
  projection; the result is \<open>None\<close>.
\<close>

theorem to_crs_unset_not_unknown:
  "to_crs unset_projection = None \<and> to_crs unset_projection \<noteq> Some ''unknown''"
  by (simp add: to_crs_def unset_projection_def truthy_int_def truthy_str_def)

section \<open>Clipping a raster with a raster mask\<close>

lemma clip_crs_mismatch:
  assumes "r_crs src \<noteq> r_crs mask_src"
  shows "clip_raster_with_raster src_ops mask_ops src mask_src =
           Inl (GISProcessingError,
             ''Clipping raster user raster failed: Both Raster must have the same CRS for clipping'')"
  using assms by (simp add: clip_raster_with_raster_def clip_body_def)

text \<open>
  Claim C4, evaluated on a source in EPSG:4326 and a mask in EPSG:3857: the
  \<open>ProjectionError\<close> raised for the mismatch is replaced by the handler of the function;
  what the caller receives has the class \<open>GISProcessingError\<close>, which a handler for
  \<open>ProjectionError\<close> does not catch.
\<close>

theorem clip_crs_mismatch_raises_base_error:
  "clip_body int_ops int_ops raster_2x2 mask_3857 =
     Inl (ProjectionError, ''Both Raster must have the same CRS for clipping'')
   \<and> clip_raster_with_raster int_ops int_ops raster_2x2 mask_3857 =
     Inl (GISProcessingError,
          ''Clipping raster user raster failed: Both Raster must have the same CRS for clipping'')
   \<and> \<not> catches ProjectionError (GISProcessingError,
          ''Clipping raster user raster failed: Both Raster must have the same CRS for clipping'')"
  by (simp add: clip_raster_with_raster_def clip_body_def raster_2x2_def mask_2x2_def
        mask_3857_def catches_def issubclass.simps)

text \<open>
  Claim C2, as the code has it.  For a source and a mask with the same CRS and the same
  grid, when the nodata value of the source can be stored in the element type of the
  source, the call succeeds: in every band the output pixel is that stored value where
  NumPy finds the pixel of the mask's first band equal to the mask's nodata value (where
  \<^verbatim>\<open>mask_data != mask_src.nodata\<close> is false), and the source pixel everywhere else; the
  metadata are the source's.  When the value cannot be stored, as \<^verbatim>\<open>None\<close> in an integer
  band, the call fails with a \<open>GISProcessingError\<close> and no dataset is written.
\<close>

theorem clip_with_raster_pixels:
  "(r_crs src = r_crs mask_src
      \<and> r_height src = r_height mask_src \<and> r_width src = r_width mask_src
      \<and> well_formed src \<and> well_formed mask_src
      \<and> r_bands mask_src = mask_data # others
      \<and> np_cast src_ops (r_nodata src) = Inr v
    \<longrightarrow> (\<exists>out. clip_raster_with_raster src_ops mask_ops src mask_src = Inr out
           \<and> length (r_bands out) = length (r_bands src)
           \<and> r_nodata out = r_nodata src \<and> r_crs out = r_crs src
           \<and> r_transform out = r_transform src
           \<and> r_width out = r_width src \<and> r_height out = r_height src
           \<and> (\<forall>k < length (r_bands src). \<forall>i < length mask_data.
                 r_bands out ! k ! i =
                   (if (case r_nodata mask_src of
                          None \<Rightarrow> False
                        | Some m \<Rightarrow> \<not> np_ne mask_ops (mask_data ! i) m)
                    then v else r_bands src ! k ! i))))
   \<and> (r_crs src = r_crs mask_src
      \<and> r_height src = r_height mask_src \<and> r_width src = r_width mask_src
      \<and> r_bands mask_src = mask_data # others \<and> r_bands src \<noteq> []
      \<and> np_cast src_ops (r_nodata src) = Inl e
    \<longrightarrow> clip_raster_with_raster src_ops mask_ops src mask_src =
          Inl (GISProcessingError, ''Clipping raster user raster failed: '' @ snd e))"
proof (intro conjI impI)
  assume a: "r_crs src = r_crs mask_src
      \<and> r_height src = r_height mask_src \<and> r_width src = r_width mask_src
      \<and> well_formed src \<and> well_formed mask_src
      \<and> r_bands mask_src = mask_data # others
      \<and> np_cast src_ops (r_nodata src) = Inr v"
  then have crs: "r_crs src = r_crs mask_src"
    and grid: "r_height src = r_height mask_src" "r_width src = r_width mask_src"
    and wf: "well_formed src" "well_formed mask_src"
    and mask: "r_bands mask_src = mask_data # others"
    and nd: "np_cast src_ops (r_nodata src) = Inr v"
    by blast+
  let ?bm = "boolean_mask mask_ops mask_data (r_nodata mask_src)"
  let ?out = "src\<lparr>r_bands := map (assign_where_not ?bm v) (r_bands src)\<rparr>"
  have res: "clip_raster_with_raster src_ops mask_ops src mask_src = Inr ?out"
    using crs grid mask nd by (simp add: clip_raster_with_raster_def clip_body_def)
  have len: "length ?bm = length mask_data"
    by (simp add: boolean_mask_def split: option.splits)
  have bm: "?bm ! i = (\<not> (case r_nodata mask_src of
                            None \<Rightarrow> False
                          | Some m \<Rightarrow> \<not> np_ne mask_ops (mask_data ! i) m))"
    if "i < length mask_data" for i
    using that by (auto simp: boolean_mask_def split: option.splits)
  have shape: "length b = length mask_data" if "b \<in> set (r_bands src)" for b
  proof -
    have "int (length b) = r_width src * r_height src"
      using wf(1) that by (simp add: well_formed_def list_all_iff)
    moreover have "int (length mask_data) = r_width mask_src * r_height mask_src"
      using wf(2) mask by (simp add: well_formed_def)
    ultimately show ?thesis
      using grid by simp
  qed
  have px: "r_bands ?out ! k ! i =
              (if (case r_nodata mask_src of
                     None \<Rightarrow> False
                   | Some m \<Rightarrow> \<not> np_ne mask_ops (mask_data ! i) m)
               then v else r_bands src ! k ! i)"
    if k: "k < length (r_bands src)" and i: "i < length mask_data" for k i
  proof -
    have "length (r_bands src ! k) = length mask_data"
      using shape k by simp
    then show ?thesis
      using k i len bm [OF i] by (simp add: assign_where_not_def)
  qed
  show "\<exists>out. clip_raster_with_raster src_ops mask_ops src mask_src = Inr out
           \<and> length (r_bands out) = length (r_bands src)
           \<and> r_nodata out = r_nodata src \<and> r_crs out = r_crs src
           \<and> r_transform out = r_transform src
           \<and> r_width out = r_width src \<and> r_height out = r_height src
           \<and> (\<forall>k < length (r_bands src). \<forall>i < length mask_data.
                 r_bands out ! k ! i =
                   (if (case r_nodata mask_src of
                          None \<Rightarrow> False
                        | Some m \<Rightarrow> \<not> np_ne mask_ops (mask_data ! i) m)
                    then v else r_bands src ! k ! i))"
    using res px by simp
next
  assume "r_crs src = r_crs mask_src
      \<and> r_height src = r_height mask_src \<and> r_width src = r_width mask_src
      \<and> r_bands mask_src = mask_data # others \<and> r_bands src \<noteq> []
      \<and> np_cast src_ops (r_nodata src) = Inl e"
  then show "clip_raster_with_raster src_ops mask_ops src mask_src =
          Inl (GISProcessingError, ''Clipping raster user raster failed: '' @ snd e)"
    by (simp add: clip_raster_with_raster_def clip_body_def)
qed

lemma clip_example:
  "clip_raster_with_raster int_ops int_ops raster_2x2 mask_2x2 =
     Inr (raster_2x2\<lparr>r_bands := [[- 1, 2, 3, - 1], [- 1, 6, 7, - 1]]\<rparr>)"
  by code_simp

lemma clip_no_nodata_example:
  "clip_raster_with_raster int_ops int_ops raster_no_nodata mask_2x2 =
     Inl (GISProcessingError,
       ''Clipping raster user raster failed: int() argument must be a real number, not NoneType'')"
  by code_simp

theorem clip_with_raster_pixels_witness:
  "r_crs raster_2x2 = r_crs mask_2x2
   \<and> r_height raster_2x2 = r_height mask_2x2 \<and> r_width raster_2x2 = r_width mask_2x2
   \<and> well_formed raster_2x2 \<and> well_formed mask_2x2
   \<and> r_bands mask_2x2 = [0, 1, 1, 0] # []
   \<and> np_cast int_ops (r_nodata raster_2x2) = Inr (- 1)
   \<and> clip_raster_with_raster int_ops int_ops raster_2x2 mask_2x2 =
       Inr (raster_2x2\<lparr>r_bands := [[- 1, 2, 3, - 1], [- 1, 6, 7, - 1]]\<rparr>)
   \<and> r_bands raster_no_nodata \<noteq> []
   \<and> np_cast int_ops (r_nodata raster_no_nodata) =
       Inl (TypeError, ''int() argument must be a real number, not NoneType'')
   \<and> clip_raster_with_raster int_ops int_ops raster_no_nodata mask_2x2 =
       Inl (GISProcessingError,
         ''Clipping raster user raster failed: int() argument must be a real number, not NoneType'')"
proof -
  have h: "r_crs raster_2x2 = r_crs mask_2x2
      \<and> r_height raster_2x2 = r_height mask_2x2 \<and> r_width raster_2x2 = r_width mask_2x2
      \<and> well_formed raster_2x2 \<and> well_formed mask_2x2
      \<and> r_bands mask_2x2 = [0, 1, 1, 0] # []
      \<and> np_cast int_ops (r_nodata raster_2x2) = Inr (- 1)"
    by (simp add: raster_2x2_def mask_2x2_def well_formed_def int_ops_def)
  have g: "r_bands raster_no_nodata \<noteq> []
      \<and> np_cast int_ops (r_nodata raster_no_nodata) =
          Inl (TypeError, ''int() argument must be a real number, not NoneType'')"
    by (simp add: raster_no_nodata_def raster_2x2_def int_ops_def)
  show ?thesis
    using clip_with_raster_pixels [where src = raster_2x2 and mask_src = mask_2x2
        and src_ops = int_ops and mask_ops = int_ops and mask_data = "[0, 1, 1, 0]"
        and others = "[]" and v = "- 1"]
      clip_example clip_no_nodata_example h g
    by simp
qed

text \<open>
  The claim as it is written holds for every call on the same CRS and grid.  An integer
  source without a nodata value makes the call fail, so that no pixel is written; and
  with a mask whose nodata value is NaN the comparison finds no pixel of the mask equal
  to it, the NaN pixel included, so that the source comes out unchanged.
\<close>

theorem clip_without_nodata_or_nan_mask:
  "raised_class (clip_raster_with_raster int_ops int_ops raster_no_nodata mask_2x2)
     = Some GISProcessingError
   \<and> r_nodata mask_nan = Some NaN \<and> r_bands mask_nan = [[NaN, Fin 1]]
   \<and> clip_raster_with_raster float64_ops float64_ops raster_f64 mask_nan = Inr raster_f64"
  by code_simp


section \<open>Resampling\<close>

lemma round_half_even_nonneg: "0 \<le> x \<Longrightarrow> 0 \<le> round_half_even x"
  by (simp add: round_half_even_def Let_def)

lemma round_binary_nonneg:
  assumes x: "0 \<le> x" and r: "round_binary p emin emax x = Fin y"
  shows "0 \<le> y"
proof (cases "x = 0")
  case True
  then show ?thesis using r by (simp add: round_binary_def)
next
  case False
  then have pos: "0 < x" using x by simp
  let ?q = "pow2 (max (ilog2 \<bar>x\<bar>) emin - (int p - 1))"
  let ?z = "of_int (round_half_even (\<bar>x\<bar> / ?q)) * ?q"
  have rb: "round_binary p emin emax x =
          (if pow2 emax \<le> ?z then (if 0 < x then PInf else NInf)
           else Fin (if 0 < x then ?z else - ?z))"
    using round_binary_nonzero [OF False, of p emin emax] .
  have yz: "y = ?z"
    using r pos unfolding rb by (simp split: if_splits)
  have "0 \<le> \<bar>x\<bar> / ?q" by simp
  then have "0 \<le> round_half_even (\<bar>x\<bar> / ?q)"
    by (rule round_half_even_nonneg)
  then have "0 \<le> ?z" by simp
  then show ?thesis by (simp only: yz)
qed

lemma round_double_int:
  assumes "0 < n" "n < 2 ^ 53"
  shows "round_double (of_int n) = Fin (of_int n)"
  unfolding round_double_def
proof (rule round_binary_exact [where m = n and k = 0])
  show "\<bar>rat_of_int n\<bar> = of_int n * pow2 0" using assms by simp
  show "0 < n" by fact
  show "n < 2 ^ 53" by fact
  show "- 1022 - (int 53 - 1) \<le> 0" by simp
  have "rat_of_int n < 2 ^ 53"
    using assms(2) by (metis of_int_less_iff of_int_numeral of_int_power)
  also have "(2 ^ 53 :: rat) \<le> 2 ^ 1024"
    by (rule power_increasing) simp_all
  finally show "\<bar>rat_of_int n\<bar> < pow2 1024"
    using assms(1) by (simp add: pow2_def)
qed

lemma py_float_exact:
  "0 < n \<Longrightarrow> n < 2 ^ 53 \<Longrightarrow> py_float n = Inr (Fin (of_int n))"
  by (simp add: py_float_def round_double_int)

lemma round_double_quotient_finite:
  assumes a: "0 < a" "a < 2 ^ 53" and b: "0 < (b::int)"
  shows "\<exists>q. round_double (of_int a / of_int b) = Fin q"
  unfolding round_double_def
proof (rule round_binary_finite)
  show "1 \<le> (53::nat)" by simp
  show "- 1022 < (1024::int)" by simp
  have "rat_of_int a / of_int b \<le> of_int a / 1"
    using a b by (intro divide_left_mono) simp_all
  moreover have "rat_of_int a < 2 ^ 53"
    using a(2) by (metis of_int_less_iff of_int_numeral of_int_power)
  moreover have "(2 ^ 53 :: rat) \<le> 2 ^ 1023"
    by (rule power_increasing) simp_all
  moreover have "0 \<le> rat_of_int a / of_int b"
    using a b by simp
  ultimately show "\<bar>rat_of_int a / of_int b\<bar> \<le> pow2 (1024 - 1)"
    by (simp add: pow2_def)
qed

lemma d_add_zero_right [simp]: "d_add v (Fin 0) = v"
  by (cases v) simp_all

lemma d_add_zero_left [simp]: "d_add (Fin 0) v = v"
  by (cases v) simp_all

lemma d_mul_zero_right [simp]: "d_mul (Fin x) (Fin 0) = Fin 0"
  by simp

lemma daffine_mul_scale:
  "daffine_mul (daffine_of t) (daffine_scale (Fin sx) (Fin sy)) =
     \<lparr>da_a = d_mul (Fin (af_a t)) (Fin sx), da_b = d_mul (Fin (af_b t)) (Fin sy),
      da_c = Fin (af_c t),
      da_d = d_mul (Fin (af_d t)) (Fin sx), da_e = d_mul (Fin (af_e t)) (Fin sy),
      da_f = Fin (af_f t)\<rparr>"
  by (simp add: daffine_mul_def daffine_of_def daffine_scale_def)

lemma py_truediv_ok:
  "b \<noteq> 0 \<Longrightarrow> round_double (of_int a / of_int b) = Fin q \<Longrightarrow>
   py_truediv a b = Inr (Fin q)"
  by (simp add: py_truediv_def)

lemma trunc_zero_floor: "0 \<le> x \<Longrightarrow> trunc_zero x = \<lfloor>x\<rfloor>"
  by (simp add: trunc_zero_def)

text \<open>The steps of the body up to the two new dimensions.\<close>

lemma resample_body_dims:
  assumes w: "0 < r_width src" "r_width src < 2 ^ 53"
    and h: "0 < r_height src" "r_height src < 2 ^ 53"
    and s: "0 < s"
    and pw: "round_double (of_int (r_width src) * s) = Fin pw"
    and ph: "round_double (of_int (r_height src) * s) = Fin ph"
  shows "resample_body read_resampled src (Fin s) m =
     (case py_truediv (r_width src) \<lfloor>pw\<rfloor> of Inl e \<Rightarrow> Inl e | Inr sx \<Rightarrow>
      case py_truediv (r_height src) \<lfloor>ph\<rfloor> of Inl e \<Rightarrow> Inl e | Inr sy \<Rightarrow>
      case read_resampled src (length (r_bands src), \<lfloor>ph\<rfloor>, \<lfloor>pw\<rfloor>) m of
        Inl e \<Rightarrow> Inl e
      | Inr data \<Rightarrow>
          Inr \<lparr>rs_crs = r_crs src,
               rs_transform = daffine_mul (daffine_of (r_transform src)) (daffine_scale sx sy),
               rs_width = \<lfloor>pw\<rfloor>, rs_height = \<lfloor>ph\<rfloor>,
               rs_dtype = r_dtype src, rs_nodata = r_nodata src, rs_bands = data\<rparr>)"
proof -
  have "0 \<le> rat_of_int (r_width src) * s" "0 \<le> rat_of_int (r_height src) * s"
    using w h s by simp_all
  then have nn: "0 \<le> pw" "0 \<le> ph"
    using pw ph round_binary_nonneg unfolding round_double_def by blast+
  have mw: "d_mul (Fin (of_int (r_width src))) (Fin s) = Fin pw"
    using w s pw by simp
  have mh: "d_mul (Fin (of_int (r_height src))) (Fin s) = Fin ph"
    using h s ph by simp
  have fw: "py_float (r_width src) = Inr (Fin (of_int (r_width src)))"
    by (rule py_float_exact [OF w])
  have fh: "py_float (r_height src) = Inr (Fin (of_int (r_height src)))"
    by (rule py_float_exact [OF h])
  have piw: "py_int (d_mul (Fin (of_int (r_width src))) (Fin s)) = Inr \<lfloor>pw\<rfloor>"
    unfolding mw by (simp add: py_int_def trunc_zero_floor nn)
  have pih: "py_int (d_mul (Fin (of_int (r_height src))) (Fin s)) = Inr \<lfloor>ph\<rfloor>"
    unfolding mh by (simp add: py_int_def trunc_zero_floor nn)
  show ?thesis
    by (simp only: resample_body_def fw fh piw pih sum.case)
qed

lemma resample_body_success:
  assumes w: "0 < r_width src" "r_width src < 2 ^ 53"
    and h: "0 < r_height src" "r_height src < 2 ^ 53"
    and s: "0 < s"
    and pw: "round_double (of_int (r_width src) * s) = Fin pw"
    and ph: "round_double (of_int (r_height src) * s) = Fin ph"
    and big: "1 \<le> pw" "1 \<le> ph"
    and rd: "read_resampled src (length (r_bands src), \<lfloor>ph\<rfloor>, \<lfloor>pw\<rfloor>) m = Inr data"
  shows "\<exists>sx sy.
      round_double (of_int (r_width src) / of_int \<lfloor>pw\<rfloor>) = Fin sx
    \<and> round_double (of_int (r_height src) / of_int \<lfloor>ph\<rfloor>) = Fin sy
    \<and> resample_body read_resampled src (Fin s) m =
        Inr \<lparr>rs_crs = r_crs src,
             rs_transform =
               \<lparr>da_a = d_mul (Fin (af_a (r_transform src))) (Fin sx),
                da_b = d_mul (Fin (af_b (r_transform src))) (Fin sy),
                da_c = Fin (af_c (r_transform src)),
                da_d = d_mul (Fin (af_d (r_transform src))) (Fin sx),
                da_e = d_mul (Fin (af_e (r_transform src))) (Fin sy),
                da_f = Fin (af_f (r_transform src))\<rparr>,
             rs_width = \<lfloor>pw\<rfloor>, rs_height = \<lfloor>ph\<rfloor>,
             rs_dtype = r_dtype src, rs_nodata = r_nodata src, rs_bands = data\<rparr>"
proof -
  have fl: "0 < \<lfloor>pw\<rfloor>" "0 < \<lfloor>ph\<rfloor>"
    using big by simp_all
  obtain sx where sx: "round_double (of_int (r_width src) / of_int \<lfloor>pw\<rfloor>) = Fin sx"
    using round_double_quotient_finite [OF w fl(1)] by blast
  obtain sy where sy: "round_double (of_int (r_height src) / of_int \<lfloor>ph\<rfloor>) = Fin sy"
    using round_double_quotient_finite [OF h fl(2)] by blast
  have nz: "\<lfloor>pw\<rfloor> \<noteq> 0" "\<lfloor>ph\<rfloor> \<noteq> 0"
    using fl by (metis less_irrefl)+
  have tx: "py_truediv (r_width src) \<lfloor>pw\<rfloor> = Inr (Fin sx)"
    by (rule py_truediv_ok [OF nz(1) sx])
  have ty: "py_truediv (r_height src) \<lfloor>ph\<rfloor> = Inr (Fin sy)"
    by (rule py_truediv_ok [OF nz(2) sy])
  have "resample_body read_resampled src (Fin s) m =
        Inr \<lparr>rs_crs = r_crs src,
             rs_transform =
               daffine_mul (daffine_of (r_transform src)) (daffine_scale (Fin sx) (Fin sy)),
             rs_width = \<lfloor>pw\<rfloor>, rs_height = \<lfloor>ph\<rfloor>,
             rs_dtype = r_dtype src, rs_nodata = r_nodata src, rs_bands = data\<rparr>"
    unfolding resample_body_dims [OF w h s pw ph] by (simp add: tx ty rd)
  then show ?thesis
    using sx sy by (simp only: daffine_mul_scale) blast
qed

lemma resample_body_zero:
  assumes w: "0 < r_width src" "r_width src < 2 ^ 53"
    and h: "0 < r_height src" "r_height src < 2 ^ 53"
    and s: "0 < s"
    and pw: "round_double (of_int (r_width src) * s) = Fin pw"
    and ph: "round_double (of_int (r_height src) * s) = Fin ph"
    and small: "pw < 1 \<or> ph < 1"
  shows "resample_body read_resampled src (Fin s) m =
           Inl (ZeroDivisionError, ''division by zero'')"
proof -
  have "0 \<le> rat_of_int (r_width src) * s" "0 \<le> rat_of_int (r_height src) * s"
    using w h s by simp_all
  then have nn: "0 \<le> pw" "0 \<le> ph"
    using pw ph round_binary_nonneg unfolding round_double_def by blast+
  show ?thesis
  proof (cases "pw < 1")
    case True
    then have "\<lfloor>pw\<rfloor> = 0" using nn(1) by linarith
    then have "py_truediv (r_width src) \<lfloor>pw\<rfloor> = Inl (ZeroDivisionError, ''division by zero'')"
      by (simp add: py_truediv_def)
    then show ?thesis
      unfolding resample_body_dims [OF w h s pw ph] by (simp only: sum.case)
  next
    case False
    then have fl: "0 < \<lfloor>pw\<rfloor>" by simp
    obtain sx where sx: "round_double (of_int (r_width src) / of_int \<lfloor>pw\<rfloor>) = Fin sx"
      using round_double_quotient_finite [OF w fl] by blast
    have nz: "\<lfloor>pw\<rfloor> \<noteq> 0"
      using fl by (metis less_irrefl)
    have tx: "py_truediv (r_width src) \<lfloor>pw\<rfloor> = Inr (Fin sx)"
      by (rule py_truediv_ok [OF nz sx])
    have "ph < 1" using small False by simp
    then have "\<lfloor>ph\<rfloor> = 0" using nn(2) by linarith
    then have "py_truediv (r_height src) \<lfloor>ph\<rfloor> = Inl (ZeroDivisionError, ''division by zero'')"
      by (simp add: py_truediv_def)
    then show ?thesis
      unfolding resample_body_dims [OF w h s pw ph] by (simp only: tx sum.case)
  qed
qed

text \<open>
  A coefficient scaled by the rounded quotient of the dimensions, times the new dimension,
  against the coefficient times the old dimension: two roundings apart.
\<close>

lemma scaled_coeff_error:
  fixes w nw :: int and a a' sx :: rat
  assumes w: "0 < w" and nw: "0 < nw"
    and sx: "round_double (of_int w / of_int nw) = Fin sx"
    and nq: "pow2 (- 1022) \<le> of_int w / of_int nw"
    and a': "d_mul (Fin a) (Fin sx) = Fin a'"
    and na: "a = 0 \<or> pow2 (- 1022) \<le> \<bar>a * sx\<bar>"
  shows "\<bar>a' * of_int nw - a * of_int w\<bar> \<le> \<bar>a * of_int w\<bar> * 3 / 2 ^ 53"
proof (cases "a = 0")
  case True
  then show ?thesis using a' by simp
next
  case False
  define q :: rat where "q = of_int w / of_int nw"
  define u :: rat where "u = 1 / 2 ^ 53"
  define A :: rat where "A = \<bar>a\<bar>"
  define N :: rat where "N = of_int nw"
  have qpos: "0 < q" using w nw by (simp add: q_def)
  have upos: "0 < u" and u1: "u \<le> 1" by (simp_all add: u_def)
  have Apos: "0 < A" using False by (simp add: A_def)
  have Npos: "0 < N" using nw by (simp add: N_def)
  have wq: "of_int w = q * N" using nw by (simp add: q_def N_def)
  have "pow2 (- 1022) \<le> \<bar>q\<bar>"
    using nq qpos by (simp only: q_def abs_of_pos)
  moreover have "round_binary 53 (- 1022) 1024 q = Fin sx"
    using sx by (simp only: q_def round_double_def)
  ultimately have "\<bar>sx - q\<bar> \<le> \<bar>q\<bar> / 2 ^ 53"
    by (rule round_binary_error)
  then have e1: "\<bar>sx - q\<bar> \<le> q * u"
    using qpos by (simp add: u_def)
  have "q * u \<le> q * 1"
    using qpos u1 by (intro mult_left_mono) simp_all
  then have sxpos: "0 \<le> sx" and sxb: "sx \<le> q + q * u"
    using e1 by linarith+
  have sx0: "sx \<noteq> 0"
  proof
    assume "sx = 0"
    then have "q \<le> q * u" using e1 qpos by simp
    moreover have "q * u < q * 1"
      using qpos by (intro mult_strict_left_mono) (simp_all add: u_def)
    ultimately show False by simp
  qed
  have rd: "round_double (a * sx) = Fin a'"
    using a' False sx0 by simp
  have nrm: "pow2 (- 1022) \<le> \<bar>a * sx\<bar>"
    using na False by simp
  have "\<bar>a' - a * sx\<bar> \<le> \<bar>a * sx\<bar> / 2 ^ 53"
    using nrm rd [unfolded round_double_def] by (rule round_binary_error)
  also have "\<bar>a * sx\<bar> / 2 ^ 53 = A * sx * u"
    using sxpos by (simp add: abs_mult A_def u_def)
  finally have e2: "\<bar>a' - a * sx\<bar> \<le> A * sx * u" .
  have "A * sx \<le> A * (q + q * u)"
    using sxb Apos by (intro mult_left_mono) simp_all
  then have "A * sx * u \<le> A * (q + q * u) * u"
    using upos by (intro mult_right_mono) simp_all
  then have e2': "\<bar>a' - a * sx\<bar> \<le> A * (q + q * u) * u"
    using e2 by linarith
  have "\<bar>a * sx - a * q\<bar> = A * \<bar>sx - q\<bar>"
    by (simp add: A_def abs_mult [symmetric] right_diff_distrib)
  also have "\<dots> \<le> A * (q * u)"
    using e1 Apos by (intro mult_left_mono) simp_all
  finally have e3: "\<bar>a * sx - a * q\<bar> \<le> A * (q * u)" .
  have "\<bar>a' - a * q\<bar> \<le> \<bar>a' - a * sx\<bar> + \<bar>a * sx - a * q\<bar>"
    by linarith
  then have "\<bar>a' - a * q\<bar> \<le> A * (q + q * u) * u + A * (q * u)"
    using e2' e3 by linarith
  also have "\<dots> = A * q * (u * (2 + u))"
    by (simp add: algebra_simps)
  also have "\<dots> \<le> A * q * (u * 3)"
  proof -
    have "u * (2 + u) \<le> u * 3"
      using upos u1 by (intro mult_left_mono) simp_all
    moreover have "0 \<le> A * q" using Apos qpos by simp
    ultimately show ?thesis by (rule mult_left_mono)
  qed
  finally have e4: "\<bar>a' - a * q\<bar> \<le> A * q * (u * 3)" .
  have "\<bar>a' * N - a * of_int w\<bar> = \<bar>a' - a * q\<bar> * N"
  proof -
    have "a' * N - a * of_int w = (a' - a * q) * N"
      by (simp add: wq algebra_simps)
    then show ?thesis using Npos by (simp add: abs_mult)
  qed
  also have "\<dots> \<le> A * q * (u * 3) * N"
    using e4 Npos by (intro mult_right_mono) simp_all
  also have "\<dots> = \<bar>a * of_int w\<bar> * 3 / 2 ^ 53"
  proof -
    have "\<bar>a * of_int w\<bar> = A * (q * N)"
      using qpos Npos by (simp add: wq A_def abs_mult)
    then show ?thesis by (simp add: u_def)
  qed
  finally show ?thesis by (simp add: N_def)
qed


section \<open>Reprojection\<close>

lemma reproject_body_meta:
  assumes "reproject_body cdt warp src target_crs m = Inr out"
  shows "cdt (r_crs src) target_crs (r_width src) (r_height src) (raster_bounds src)
           = Inr (r_transform out, r_width out, r_height out)
         \<and> r_crs out = Some target_crs"
  using assms
  by (auto simp: reproject_body_def split: sum.splits prod.splits)

lemma reproject_raster_body:
  "reproject_raster cdt warp src target_crs m = Inr out \<longleftrightarrow>
   reproject_body cdt warp src target_crs m = Inr out"
  by (simp add: reproject_raster_def split: sum.splits)

text \<open>
  Claim C7.  Two runs on the same source and target CRS, with the same library behind
  them, that differ in the resampling kernel only and both succeed, write the same
  transform, width, height, extent and CRS: the triple that
  \<open>calculate_default_transform\<close> returned for the source.
\<close>

theorem reproject_kernel_independent:
  assumes r1: "reproject_raster cdt warp src target_crs m1 = Inr out1"
    and r2: "reproject_raster cdt warp src target_crs m2 = Inr out2"
  shows "r_transform out1 = r_transform out2 \<and> r_width out1 = r_width out2
         \<and> r_height out1 = r_height out2 \<and> extent out1 = extent out2
         \<and> r_crs out1 = r_crs out2
         \<and> cdt (r_crs src) target_crs (r_width src) (r_height src) (raster_bounds src)
             = Inr (r_transform out1, r_width out1, r_height out1)"
proof -
  from r1 have b1: "reproject_body cdt warp src target_crs m1 = Inr out1"
    by (simp add: reproject_raster_body)
  from r2 have b2: "reproject_body cdt warp src target_crs m2 = Inr out2"
    by (simp add: reproject_raster_body)
  note m1 = reproject_body_meta [OF b1] and m2 = reproject_body_meta [OF b2]
  from m1 m2 have "(r_transform out1, r_width out1, r_height out1)
                 = (r_transform out2, r_width out2, r_height out2)"
    by simp
  then show ?thesis
    using m1 m2 by (simp add: extent_def)
qed

lemma run_nearest:
  "reproject_raster cdt_half warp_toy raster_2x2 ''EPSG:3857'' ''nearest'' =
     Inr (raster_2x2\<lparr>r_crs := Some ''EPSG:3857'',
            r_transform := \<lparr>af_a = 2, af_b = 0, af_c = 0, af_d = 0, af_e = - 2, af_f = 2\<rparr>,
            r_width := 1, r_height := 1, r_bands := [[1], [5]]\<rparr>)"
  by code_simp

lemma run_bilinear:
  "reproject_raster cdt_half warp_toy raster_2x2 ''EPSG:3857'' ''bilinear'' =
     Inr (raster_2x2\<lparr>r_crs := Some ''EPSG:3857'',
            r_transform := \<lparr>af_a = 2, af_b = 0, af_c = 0, af_d = 0, af_e = - 2, af_f = 2\<rparr>,
            r_width := 1, r_height := 1, r_bands := [[10], [26]]\<rparr>)"
  by code_simp

theorem reproject_kernel_independent_witness:
  "reproject_raster cdt_half warp_toy raster_2x2 ''EPSG:3857'' ''nearest'' =
     Inr (raster_2x2\<lparr>r_crs := Some ''EPSG:3857'',
            r_transform := \<lparr>af_a = 2, af_b = 0, af_c = 0, af_d = 0, af_e = - 2, af_f = 2\<rparr>,
            r_width := 1, r_height := 1, r_bands := [[1], [5]]\<rparr>)
   \<and> reproject_raster cdt_half warp_toy raster_2x2 ''EPSG:3857'' ''bilinear'' =
     Inr (raster_2x2\<lparr>r_crs := Some ''EPSG:3857'',
            r_transform := \<lparr>af_a = 2, af_b = 0, af_c = 0, af_d = 0, af_e = - 2, af_f = 2\<rparr>,
            r_width := 1, r_height := 1, r_bands := [[10], [26]]\<rparr>)
   \<and> cdt_half (r_crs raster_2x2) ''EPSG:3857'' (r_width raster_2x2) (r_height raster_2x2)
         (raster_bounds raster_2x2)
       = Inr (\<lparr>af_a = 2, af_b = 0, af_c = 0, af_d = 0, af_e = - 2, af_f = 2\<rparr>, 1, 1)"
  using reproject_kernel_independent [OF run_nearest run_bilinear] run_nearest run_bilinear
  by simp

section \<open>Union of vector datasets\<close>

text \<open>
  Claim C8.  A successful union of two inputs holds the rows of the first followed by
  the rows of the second, so their number is the sum of the two counts; its CRS is the
  first CRS that is not \<open>None\<close> in input order; the rows of the second input are
  transformed to that CRS when it has another one, and taken as they are otherwise.  The
  call succeeds unless the first input has a CRS and the second has none.
\<close>

theorem union_feature_count:
  "(union_vectors tr [A, B] = Inr out \<longrightarrow>
      length (g_features out) = length (g_features A) + length (g_features B)
      \<and> g_crs out = first_crs [A, B]
      \<and> g_features out =
          g_features A @
            (if g_crs A = None \<or> g_crs B = g_crs A then g_features B
             else map (tr (the (g_crs B)) (the (g_crs A))) (g_features B)))
   \<and> (g_crs A = None \<or> g_crs B \<noteq> None \<longrightarrow> (\<exists>res. union_vectors tr [A, B] = Inr res))"
  by (auto simp: union_vectors_def union_body_def gdf_to_crs_def
           split: sum.splits option.splits if_splits prod.splits)

lemma union_example:
  "union_vectors shift [frame_a, frame_b] =
     Inr \<lparr>g_crs = Some ''EPSG:4326'',
          g_features = [(0, 0), (1, 1), (101, 101), (105, 105), (107, 107)]\<rparr>"
  by code_simp

theorem union_feature_count_witness:
  "union_vectors shift [frame_a, frame_b] =
     Inr \<lparr>g_crs = Some ''EPSG:4326'',
          g_features = [(0, 0), (1, 1), (101, 101), (105, 105), (107, 107)]\<rparr>
   \<and> g_crs frame_b \<noteq> None
   \<and> length [(0, 0), (1, 1), (101, 101), (105, 105), (107 :: int, 107 :: int)]
       = length (g_features frame_a) + length (g_features frame_b)"
  using union_feature_count [of shift frame_a frame_b
      "\<lparr>g_crs = Some ''EPSG:4326'',
        g_features = [(0, 0), (1, 1), (101, 101), (105, 105), (107, 107)]\<rparr>"]
    union_example
  by (simp add: frame_a_def frame_b_def)


end
